theory Spec2Isabelle
  imports Main
begin

section \<open>Ledger values handled by the assembled transaction\<close>

text \<open>
  The binary encoding of these values belongs to the codec library; here they are
  plain data. A base64 XDR string is a \<open>string\<close>.
\<close>

type_synonym XDR_BASE64 = string

datatype ScVal = scvVoid | scvBool bool | scvU32 nat | scvBytes string | scvVec "ScVal list"

datatype ScAddress = scAddressTypeAccount string | scAddressTypeContract string

record SorobanAddressCredentials =
  address :: ScAddress
  nonce :: int
  signatureExpirationLedger :: nat
  signature :: ScVal

text \<open>
  \<open>credentials_address\<close> is the union accessor \<^verbatim>\<open>credentials().address()\<close>: it is
  only meaningful on the address arm, as in the XDR library, where it throws on the
  other arm.
\<close>

datatype SorobanCredentials =
    sorobanCredentialsSourceAccount
  | sorobanCredentialsAddress (credentials_address: SorobanAddressCredentials)

record SorobanAuthorizationEntry =
  credentials :: SorobanCredentials
  rootInvocation :: string

record LedgerFootprint =
  readOnly :: "string list"
  readWrite :: "string list"

record SorobanResources =
  footprint :: LedgerFootprint
  instructions :: nat

record SorobanTransactionData =
  resources :: SorobanResources
  resourceFee :: nat

datatype HostFunction =
    hostFunctionTypeInvokeContract string string "ScVal list"
  | hostFunctionTypeOther string

datatype Operation =
    InvokeHostFunction HostFunction "SorobanAuthorizationEntry list"
  | RestoreFootprint
  | OtherOperation string

record Account =
  accountId :: string
  sequence :: nat

record Tx =
  tx_source :: string
  tx_sequence :: nat
  tx_fee :: string
  tx_networkPassphrase :: string
  operations :: "Operation list"
  tx_timeBounds :: "(nat \<times> nat) option"
  tx_sorobanData :: "SorobanTransactionData option"
  signatures :: "string list"

text \<open>
  The state of a \<^verbatim>\<open>TransactionBuilder\<close>. \<open>tb_timeout\<close> is the argument of \<^verbatim>\<open>setTimeout\<close>;
  the library turns it into time bounds with the clock.
\<close>

record TransactionBuilder =
  tb_source :: Account
  tb_fee :: string
  tb_networkPassphrase :: string
  tb_operations :: "Operation list"
  tb_timeout :: "nat option"
  tb_sorobanData :: "SorobanTransactionData option"

section \<open>Simulation and submission responses\<close>

record SimulateHostFunctionResult =
  auth :: "SorobanAuthorizationEntry list"
  retval :: ScVal

record RestorePreamble =
  minResourceFee :: string
  transactionData :: SorobanTransactionData

record SimulationSuccess =
  sim_result :: "SimulateHostFunctionResult option"
  sim_transactionData :: SorobanTransactionData
  sim_minResourceFee :: string

text \<open>
  The three shapes of \<^verbatim>\<open>Api.SimulateTransactionResponse\<close>. A restore response is a success
  response that also carries a restore preamble, so \<open>isSimulationSuccess\<close> holds of it.
\<close>

datatype SimulateTransactionResponse =
    SimulateTransactionErrorResponse string
  | SimulateTransactionSuccessResponse SimulationSuccess
  | SimulateTransactionRestoreResponse SimulationSuccess RestorePreamble

datatype GetTransactionStatus = SUCCESS | NOT_FOUND | FAILED

record GetTransactionResponse =
  status :: GetTransactionStatus
  latestLedger :: nat

record SentTransaction =
  getTransactionResponse :: "GetTransactionResponse option"

section \<open>Errors\<close>

text \<open>
  The classes of \<^verbatim>\<open>AssembledTransaction.Errors\<close>, a plain \<^verbatim>\<open>Error\<close> with its message, a
  \<^verbatim>\<open>TypeError\<close> of the runtime, and \<open>Rejected\<close> for whatever a collaborator (RPC server,
  wallet callback, codec) fails with.
\<close>

datatype error =
    ExpiredState
  | RestorationFailure "GetTransactionResponse option"
  | NeedsMoreSignatures "string list"
  | NoSignatureNeeded
  | NoUnsignedNonInvokerAuthEntries
  | NoSigner
  | NotYetSimulated
  | FakeAccount
  | Error string
  | TypeError string
  | Rejected string

section \<open>Options and the assembled transaction\<close>

type_synonym signTransaction_fn = "XDR_BASE64 \<Rightarrow> string \<Rightarrow> error + XDR_BASE64"
type_synonym signAuthEntry_fn = "XDR_BASE64 \<Rightarrow> string \<Rightarrow> error + string"

record AssembledTransactionOptions =
  contractId :: string
  "method" :: string
  args :: "ScVal list option"
  publicKey :: "string option"
  networkPassphrase :: string
  rpcUrl :: string
  fee :: "string option"
  timeoutInSeconds :: "nat option"
  opt_simulate :: "bool option"
  restore :: "bool option"
  signTransaction :: "signTransaction_fn option"
  signAuthEntry :: "signAuthEntry_fn option"

record AssembledTransaction =
  options :: AssembledTransactionOptions
  raw :: "TransactionBuilder option"
  built :: "Tx option"
  simulation :: "SimulateTransactionResponse option"
  simulationResult :: "SimulateHostFunctionResult option"
  simulationTransactionData :: "SorobanTransactionData option"
  signed :: "Tx option"

section \<open>Authorization entries that still need a signature\<close>

text \<open>
  \<^verbatim>\<open>Address.fromScAddress(a).toString()\<close>: the strkey of an address. Its first character
  tells the kind, \<open>G\<close> for an account and \<open>C\<close> for a contract; the rest stands for the
  encoded key.
\<close>

definition Address_toString :: "ScAddress \<Rightarrow> string" where
  "Address_toString a =
     (case a of
        scAddressTypeAccount k \<Rightarrow> CHR ''G'' # k
      | scAddressTypeContract k \<Rightarrow> CHR ''C'' # k)"

text \<open>\<^verbatim>\<open>[...new Set(xs)]\<close>: the elements in the order of their first occurrence.\<close>

definition Set_spread :: "'a list \<Rightarrow> 'a list" where
  "Set_spread xs = fold (\<lambda>x acc. if x \<in> set acc then acc else acc @ [x]) xs []"

text \<open>\<^verbatim>\<open>op.auth ?? []\<close>: only an invoke-host-function operation carries entries.\<close>

definition op_auth :: "Operation \<Rightarrow> SorobanAuthorizationEntry list" where
  "op_auth ope = (case ope of InvokeHostFunction f es \<Rightarrow> es | _ \<Rightarrow> [])"

definition isAddressCredentials :: "SorobanCredentials \<Rightarrow> bool" where
  "isAddressCredentials c =
     (case c of sorobanCredentialsAddress a \<Rightarrow> True | sorobanCredentialsSourceAccount \<Rightarrow> False)"

text \<open>
  A built transaction always has the \<^verbatim>\<open>operations\<close> property that the source tests for, so
  that test has no branch here. Reading \<^verbatim>\<open>auth\<close> of a first operation that does not exist
  is the runtime's \<^verbatim>\<open>TypeError\<close>.
\<close>

definition needsNonInvokerSigningBy ::
  "bool \<Rightarrow> AssembledTransaction \<Rightarrow> error + string list" where
  "needsNonInvokerSigningBy includeAlreadySigned this =
     (case built this of
        None \<Rightarrow> Inl (Error ''Transaction has not yet been simulated'')
      | Some b \<Rightarrow>
          (case operations b of
             [] \<Rightarrow> Inl (TypeError ''Cannot read properties of undefined (reading auth)'')
           | rawInvokeHostFunctionOp # rest \<Rightarrow>
               Inr (Set_spread
                 (map (\<lambda>entry. Address_toString
                                 (address (credentials_address (credentials entry))))
                   (filter
                     (\<lambda>entry. isAddressCredentials (credentials entry) \<and>
                        (includeAlreadySigned \<or>
                         signature (credentials_address (credentials entry)) = scvVoid))
                     (op_auth rawInvokeHostFunctionOp))))))"

section \<open>Collaborators\<close>

text \<open>
  What the module imports and does not define: the constants, the transaction builder
  and the XDR codec of the base library, and \<^verbatim>\<open>assembleTransaction\<close> of the RPC module.
  All of them are pure and are taken as parameters. \<open>TransactionBuilder_cloneFrom\<close> stands
  for the call \<^verbatim>\<open>cloneFrom(tx, {fee, timebounds: undefined, sorobanData})\<close>.
\<close>

type_synonym authorizeEntry_fn =
  "SorobanAuthorizationEntry \<Rightarrow> (XDR_BASE64 \<Rightarrow> error + string) \<Rightarrow> nat \<Rightarrow> string
     \<Rightarrow> error + SorobanAuthorizationEntry"

record Lib =
  BASE_FEE :: string
  DEFAULT_TIMEOUT :: nat
  TransactionBuilder_build :: "TransactionBuilder \<Rightarrow> Tx"
  TransactionBuilder_cloneFrom :: "Tx \<Rightarrow> string \<Rightarrow> SorobanTransactionData \<Rightarrow> TransactionBuilder"
  TransactionBuilder_fromXDR :: "XDR_BASE64 \<Rightarrow> string \<Rightarrow> error + Tx"
  Tx_toXDR :: "Tx \<Rightarrow> XDR_BASE64"
  SorobanAuthorizationEntry_toXDR :: "SorobanAuthorizationEntry \<Rightarrow> XDR_BASE64"
  SorobanAuthorizationEntry_fromXDR :: "XDR_BASE64 \<Rightarrow> error + SorobanAuthorizationEntry"
  ScVal_toXDR :: "ScVal \<Rightarrow> XDR_BASE64"
  ScVal_fromXDR :: "XDR_BASE64 \<Rightarrow> error + ScVal"
  SorobanTransactionData_toXDR :: "SorobanTransactionData \<Rightarrow> XDR_BASE64"
  SorobanTransactionData_fromXDR :: "XDR_BASE64 \<Rightarrow> error + SorobanTransactionData"
  stellarBaseAuthorizeEntry :: authorizeEntry_fn
  assembleTransaction :: "Tx \<Rightarrow> SimulateTransactionResponse \<Rightarrow> error + TransactionBuilder"

section \<open>Construction\<close>

text \<open>A JavaScript string option is falsy when it is undefined or empty.\<close>

definition falsy :: "string option \<Rightarrow> bool" where
  "falsy s = (case s of None \<Rightarrow> True | Some v \<Rightarrow> v = [])"

definition new_AssembledTransaction ::
  "AssembledTransactionOptions \<Rightarrow> error + AssembledTransaction" where
  "new_AssembledTransaction opts =
     (if falsy (publicKey opts)
      then Inl (Error ''Public key not provided. Have you forgotten to set the `publicKey` in AssembledTransactionOptions?'')
      else Inr \<lparr> options = opts\<lparr> opt_simulate :=
                    Some (case opt_simulate opts of None \<Rightarrow> True | Some v \<Rightarrow> v) \<rparr>,
                 raw = None, built = None, simulation = None, simulationResult = None,
                 simulationTransactionData = None, signed = None \<rparr>)"

section \<open>Cached simulation data\<close>

text \<open>
  The getter \<^verbatim>\<open>simulationData\<close> writes its two cache fields, so it returns the object
  as well as the value.
\<close>

definition simulationData ::
  "AssembledTransaction \<Rightarrow>
     (error + SimulateHostFunctionResult \<times> SorobanTransactionData) \<times> AssembledTransaction" where
  "simulationData this =
     (case (simulationResult this, simulationTransactionData this) of
        (Some r, Some d) \<Rightarrow> (Inr (r, d), this)
      | _ \<Rightarrow>
        (case simulation this of
           None \<Rightarrow> (Inl NotYetSimulated, this)
         | Some (SimulateTransactionErrorResponse e) \<Rightarrow>
             (Inl (Error (''Transaction simulation failed: '' @ [CHR 0x22] @ e @ [CHR 0x22])), this)
         | Some (SimulateTransactionRestoreResponse s p) \<Rightarrow> (Inl ExpiredState, this)
         | Some (SimulateTransactionSuccessResponse s) \<Rightarrow>
             (let r = (case sim_result s of
                         None \<Rightarrow> \<lparr> auth = [], retval = scvVoid \<rparr>
                       | Some v \<Rightarrow> v);
                  d = sim_transactionData s
              in (Inr (r, d),
                  this\<lparr> simulationResult := Some r, simulationTransactionData := Some d \<rparr>))))"

definition isReadCall :: "AssembledTransaction \<Rightarrow> (error + bool) \<times> AssembledTransaction" where
  "isReadCall this =
     (case simulationData this of
        (Inl e, this1) \<Rightarrow> (Inl e, this1)
      | (Inr (r1, d1), this1) \<Rightarrow>
          (case simulationData this1 of
             (Inl e, this2) \<Rightarrow> (Inl e, this2)
           | (Inr (r2, d2), this2) \<Rightarrow>
               (let authsCount = length (auth r1);
                    writeLength = length (readWrite (footprint (resources d2)))
                in (Inr (authsCount = 0 \<and> writeLength = 0), this2))))"

section \<open>Serialization\<close>

text \<open>
  The object that \<^verbatim>\<open>toJSON\<close> hands to \<^verbatim>\<open>JSON.stringify\<close> and that \<^verbatim>\<open>fromJSON\<close> receives
  parsed. All its leaves are strings, which stringify and parse back unchanged; a key
  whose value is undefined is dropped, hence the optional \<open>json_tx\<close>.
\<close>

record json =
  json_method :: string
  json_tx :: "XDR_BASE64 option"
  json_auth :: "XDR_BASE64 list"
  json_retval :: XDR_BASE64
  json_simulationTransactionData :: XDR_BASE64

definition toJSON :: "Lib \<Rightarrow> AssembledTransaction \<Rightarrow> (error + json) \<times> AssembledTransaction" where
  "toJSON L this =
     (case simulationData this of
        (Inl e, this1) \<Rightarrow> (Inl e, this1)
      | (Inr (r1, d1), this1) \<Rightarrow>
     (case simulationData this1 of
        (Inl e, this2) \<Rightarrow> (Inl e, this2)
      | (Inr (r2, d2), this2) \<Rightarrow>
     (case simulationData this2 of
        (Inl e, this3) \<Rightarrow> (Inl e, this3)
      | (Inr (r3, d3), this3) \<Rightarrow>
          (Inr \<lparr> json_method = method (options this),
                 json_tx = map_option (Tx_toXDR L) (built this),
                 json_auth = map (SorobanAuthorizationEntry_toXDR L) (auth r1),
                 json_retval = ScVal_toXDR L (retval r2),
                 json_simulationTransactionData = SorobanTransactionData_toXDR L d3 \<rparr>,
           this3))))"

text \<open>The decoders stop at the first entry that does not decode.\<close>

fun decode_all :: "('a \<Rightarrow> error + 'b) \<Rightarrow> 'a list \<Rightarrow> error + 'b list" where
  "decode_all f [] = Inr []"
| "decode_all f (x # xs) =
     (case f x of
        Inl e \<Rightarrow> Inl e
      | Inr y \<Rightarrow> (case decode_all f xs of Inl e \<Rightarrow> Inl e | Inr ys \<Rightarrow> Inr (y # ys)))"

definition fromJSON ::
  "Lib \<Rightarrow> AssembledTransactionOptions \<Rightarrow> json \<Rightarrow> error + AssembledTransaction" where
  "fromJSON L opts j =
     (case new_AssembledTransaction opts of
        Inl e \<Rightarrow> Inl e
      | Inr txn \<Rightarrow>
     (case json_tx j of
        None \<Rightarrow> Inl (TypeError ''tx is undefined'')
      | Some tx \<Rightarrow>
     (case TransactionBuilder_fromXDR L tx (networkPassphrase opts) of
        Inl e \<Rightarrow> Inl e
      | Inr b \<Rightarrow>
     (case decode_all (SorobanAuthorizationEntry_fromXDR L) (json_auth j) of
        Inl e \<Rightarrow> Inl e
      | Inr as \<Rightarrow>
     (case ScVal_fromXDR L (json_retval j) of
        Inl e \<Rightarrow> Inl e
      | Inr rv \<Rightarrow>
     (case SorobanTransactionData_fromXDR L (json_simulationTransactionData j) of
        Inl e \<Rightarrow> Inl e
      | Inr d \<Rightarrow>
          Inr (txn\<lparr> built := Some b,
                    simulationResult := Some \<lparr> auth = as, retval = rv \<rparr>,
                    simulationTransactionData := Some d \<rparr>)))))))"

section \<open>The RPC server and the submission tracker\<close>

text \<open>
  The network side is a state \<open>'w\<close> that every call may change. \<open>getAccount\<close> is the
  helper of the utilities module, \<open>SentTransaction_init\<close> sends a signed transaction and
  follows it; \<open>getLatestLedger\<close> gives the sequence number of the latest ledger.
\<close>

record 'w Rpc =
  simulateTransaction :: "Tx \<Rightarrow> 'w \<Rightarrow> (error + SimulateTransactionResponse) \<times> 'w"
  getLatestLedger :: "'w \<Rightarrow> (error + nat) \<times> 'w"
  getAccount :: "AssembledTransactionOptions \<Rightarrow> 'w \<Rightarrow> (error + Account) \<times> 'w"
  SentTransaction_init :: "AssembledTransaction \<Rightarrow> 'w \<Rightarrow> (error + SentTransaction) \<times> 'w"

section \<open>Signing and sending the envelope\<close>

definition startsWith :: "string \<Rightarrow> string \<Rightarrow> bool" where
  "startsWith s p = (take (length p) s = p)"

text \<open>
  \<open>sign\<close> returns the object too: it may fill the simulation cache and it replaces
  \<open>built\<close> before the wallet is called, also when the wallet then fails.
\<close>

definition sign ::
  "Lib \<Rightarrow> bool \<Rightarrow> signTransaction_fn option \<Rightarrow> AssembledTransaction
     \<Rightarrow> (error + unit) \<times> AssembledTransaction" where
  "sign L force signTransaction_arg this =
     (let signTx = (case signTransaction_arg of
                      None \<Rightarrow> signTransaction (options this)
                    | Some f \<Rightarrow> Some f)
      in case built this of
        None \<Rightarrow> (Inl (Error ''Transaction has not yet been simulated.''), this)
      | Some b \<Rightarrow>
     (case (if force then (Inr False, this) else isReadCall this) of
        (Inl e, this1) \<Rightarrow> (Inl e, this1)
      | (Inr True, this1) \<Rightarrow> (Inl NoSignatureNeeded, this1)
      | (Inr False, this1) \<Rightarrow>
     (case signTx of
        None \<Rightarrow> (Inl NoSigner, this1)
      | Some signFn \<Rightarrow>
     (case needsNonInvokerSigningBy False this1 of
        Inl e \<Rightarrow> (Inl e, this1)
      | Inr ids \<Rightarrow>
     (let sigsNeeded = filter (\<lambda>id. \<not> startsWith id ''C'') ids
      in if sigsNeeded \<noteq> [] then (Inl (NeedsMoreSignatures sigsNeeded), this1)
      else
     (let timeout = (case timeoutInSeconds (options this1) of
                       None \<Rightarrow> DEFAULT_TIMEOUT L
                     | Some t \<Rightarrow> t)
      in case simulationData this1 of
        (Inl e, this2) \<Rightarrow> (Inl e, this2)
      | (Inr (r, d), this2) \<Rightarrow>
     (let b' = TransactionBuilder_build L
                 ((TransactionBuilder_cloneFrom L b (tx_fee b) d)\<lparr> tb_timeout := Some timeout \<rparr>);
          this3 = this2\<lparr> built := Some b' \<rparr>
      in case signFn (Tx_toXDR L b') (networkPassphrase (options this3)) of
        Inl e \<Rightarrow> (Inl e, this3)
      | Inr signature' \<Rightarrow>
     (case TransactionBuilder_fromXDR L signature' (networkPassphrase (options this3)) of
        Inl e \<Rightarrow> (Inl e, this3)
      | Inr s \<Rightarrow> (Inr (), this3\<lparr> signed := Some s \<rparr>)))))))))"

definition send ::
  "'w Rpc \<Rightarrow> AssembledTransaction \<Rightarrow> 'w \<Rightarrow> (error + SentTransaction) \<times> 'w" where
  "send R this w =
     (case signed this of
        None \<Rightarrow> (Inl (Error ''The transaction has not yet been signed. Run `sign` first, or use `signAndSend` instead.''), w)
      | Some s \<Rightarrow> SentTransaction_init R this w)"

definition signAndSend ::
  "Lib \<Rightarrow> 'w Rpc \<Rightarrow> bool \<Rightarrow> signTransaction_fn option \<Rightarrow> AssembledTransaction \<Rightarrow> 'w
     \<Rightarrow> (error + SentTransaction) \<times> AssembledTransaction \<times> 'w" where
  "signAndSend L R force signTransaction_arg this w =
     (case signed this of
        Some s \<Rightarrow> (case send R this w of (r, w1) \<Rightarrow> (r, this, w1))
      | None \<Rightarrow>
          (case sign L force signTransaction_arg this of
             (Inl e, this1) \<Rightarrow> (Inl e, this1, w)
           | (Inr u, this1) \<Rightarrow> (case send R this1 w of (r, w1) \<Rightarrow> (r, this1, w1))))"

section \<open>Signing authorization entries\<close>

text \<open>
  The loop over \<^verbatim>\<open>authEntries.entries()\<close>. \<open>authz\<close> is the call of \<^verbatim>\<open>authorizeEntry\<close> for one
  entry and one signing address; the loop stops at the first call that fails, and the
  entries replaced before it stay replaced. The source reads the credentials of an entry
  through an encode and decode of the codec, which is taken as the identity.
\<close>

fun signAuthEntries_loop ::
  "(SorobanAuthorizationEntry \<Rightarrow> string \<Rightarrow> error + SorobanAuthorizationEntry)
     \<Rightarrow> string option \<Rightarrow> SorobanAuthorizationEntry list
     \<Rightarrow> error option \<times> SorobanAuthorizationEntry list" where
  "signAuthEntries_loop authz address_arg [] = (None, [])"
| "signAuthEntries_loop authz address_arg (entry # rest) =
     (case credentials entry of
        sorobanCredentialsSourceAccount \<Rightarrow>
          (case signAuthEntries_loop authz address_arg rest of (r, rest') \<Rightarrow> (r, entry # rest'))
      | sorobanCredentialsAddress c \<Rightarrow>
          (let authEntryAddress = Address_toString (address c)
           in if Some authEntryAddress \<noteq> address_arg
              then (case signAuthEntries_loop authz address_arg rest of
                      (r, rest') \<Rightarrow> (r, entry # rest'))
              else (case authz entry authEntryAddress of
                      Inl e \<Rightarrow> (Some e, entry # rest)
                    | Inr entry' \<Rightarrow>
                        (case signAuthEntries_loop authz address_arg rest of
                           (r, rest') \<Rightarrow> (r, entry' # rest')))))"

text \<open>
  The arguments are optional; \<open>None\<close> takes the default. The default expiration asks the
  server for the latest ledger when the call starts, whatever happens next, and its
  outcome is only looked at when an entry is about to be signed. A missing
  \<^verbatim>\<open>authorizeEntry\<close> is the library's own, which is what the source compares against.
  The fallback signer \<^verbatim>\<open>Promise.resolve\<close>, called detached, throws a \<^verbatim>\<open>TypeError\<close>.
  The signer handed to \<^verbatim>\<open>authorizeEntry\<close> receives the preimage as base64 XDR and returns
  the signature as the callback gave it.
\<close>

definition signAuthEntries ::
  "Lib \<Rightarrow> 'w Rpc \<Rightarrow> nat option \<Rightarrow> signAuthEntry_fn option \<Rightarrow> string option
     \<Rightarrow> authorizeEntry_fn option \<Rightarrow> AssembledTransaction \<Rightarrow> 'w
     \<Rightarrow> (error + unit) \<times> AssembledTransaction \<times> 'w" where
  "signAuthEntries L R expiration_arg signAuthEntry_arg address_arg authorizeEntry_arg this w =
     (let (expiration, w1) =
            (case expiration_arg of
               Some n \<Rightarrow> (Inr n, w)
             | None \<Rightarrow>
                 (case getLatestLedger R w of
                    (Inl e, w') \<Rightarrow> (Inl e, w')
                  | (Inr sequence', w') \<Rightarrow> (Inr (sequence' + 100), w')));
          signEntry = (case signAuthEntry_arg of
                         None \<Rightarrow> signAuthEntry (options this)
                       | Some f \<Rightarrow> Some f);
          addr = (case address_arg of
                    None \<Rightarrow> publicKey (options this)
                  | Some a \<Rightarrow> Some a)
      in case built this of
        None \<Rightarrow> (Inl (Error ''Transaction has not yet been assembled or simulated''), this, w1)
      | Some b \<Rightarrow>
     (case (case authorizeEntry_arg of
              Some custom \<Rightarrow> None
            | None \<Rightarrow>
                (case needsNonInvokerSigningBy False this of
                   Inl e \<Rightarrow> Some e
                 | Inr needs \<Rightarrow>
                     if length needs = 0 then Some NoUnsignedNonInvokerAuthEntries
                     else if (case addr of None \<Rightarrow> [] | Some a \<Rightarrow> a) \<notin> set needs
                       then Some NoSignatureNeeded
                     else if signEntry = None then Some NoSigner
                     else None)) of
        Some e \<Rightarrow> (Inl e, this, w1)
      | None \<Rightarrow>
     (case operations b of
        [] \<Rightarrow> (Inl (TypeError ''Cannot read properties of undefined (reading auth)''), this, w1)
      | rawInvokeHostFunctionOp # others \<Rightarrow>
     (let authorize = (case authorizeEntry_arg of
                         None \<Rightarrow> stellarBaseAuthorizeEntry L
                       | Some custom \<Rightarrow> custom);
          signFn = (case signEntry of
                      Some f \<Rightarrow> f
                    | None \<Rightarrow> (\<lambda>preimage a. Inl (TypeError ''PromiseResolve called on non-object'')));
          authz = (\<lambda>entry a.
                     case expiration of
                       Inl e \<Rightarrow> Inl e
                     | Inr n \<Rightarrow>
                         authorize entry (\<lambda>preimage. signFn preimage a) n
                           (networkPassphrase (options this)))
      in case rawInvokeHostFunctionOp of
        InvokeHostFunction f authEntries \<Rightarrow>
          (case signAuthEntries_loop authz addr authEntries of
             (r, authEntries') \<Rightarrow>
               ((case r of None \<Rightarrow> Inr () | Some e \<Rightarrow> Inl e),
                this\<lparr> built := Some (b\<lparr> operations := InvokeHostFunction f authEntries' # others \<rparr>) \<rparr>,
                w1))
      | _ \<Rightarrow> (Inr (), this, w1)))))"

section \<open>Simulation and footprint restoration\<close>

text \<open>
  \<^verbatim>\<open>TransactionBuilder.build()\<close> also increments the sequence number of the account object
  the builder holds. The model keeps that account in the builder, so the builder after
  \<open>build\<close> shows the incremented account.
\<close>

definition incrementSequenceNumber :: "Account \<Rightarrow> Account" where
  "incrementSequenceNumber a = a\<lparr> sequence := Suc (sequence a) \<rparr>"

definition build_raw :: "Lib \<Rightarrow> TransactionBuilder \<Rightarrow> Tx \<times> TransactionBuilder" where
  "build_raw L tb =
     (TransactionBuilder_build L tb, tb\<lparr> tb_source := incrementSequenceNumber (tb_source tb) \<rparr>)"

text \<open>
  The builder of the contract call:
  \<^verbatim>\<open>new TransactionBuilder(account, {fee, networkPassphrase}).addOperation(contract.call(method, ...args)).setTimeout(t)\<close>.
\<close>

definition invokeBuilder ::
  "Lib \<Rightarrow> AssembledTransactionOptions \<Rightarrow> Account \<Rightarrow> TransactionBuilder" where
  "invokeBuilder L opts account =
     \<lparr> tb_source = account,
       tb_fee = (case fee opts of None \<Rightarrow> BASE_FEE L | Some v \<Rightarrow> v),
       tb_networkPassphrase = networkPassphrase opts,
       tb_operations =
         [InvokeHostFunction
            (hostFunctionTypeInvokeContract (contractId opts) (method opts)
               (case args opts of None \<Rightarrow> [] | Some vs \<Rightarrow> vs))
            []],
       tb_timeout = Some (case timeoutInSeconds opts of None \<Rightarrow> DEFAULT_TIMEOUT L | Some t \<Rightarrow> t),
       tb_sorobanData = None \<rparr>"

definition isSimulationSuccess :: "SimulateTransactionResponse \<Rightarrow> bool" where
  "isSimulationSuccess sim =
     (case sim of SimulateTransactionErrorResponse e \<Rightarrow> False | _ \<Rightarrow> True)"

text \<open>
  \<open>simulate\<close> calls \<open>restoreFootprint\<close>, which builds the restore transaction with
  \<open>buildFootprintRestoreTransaction\<close>, which calls \<open>simulate\<close>; and \<open>simulate\<close> calls itself
  after a restore. Nothing in the source bounds this, so the functions take fuel: every
  call of \<open>simulate\<close> uses one unit, and \<open>None\<close> says that the fuel ran out before the call
  returned. A result \<open>Some (r, this', w')\<close> is what the call returns or throws (\<open>r\<close>), the
  object and the network state it leaves. \<open>restoreFootprint\<close> also returns the account
  object it used, as the restore transaction's \<open>build\<close> left it.
\<close>

function simulate ::
    "Lib \<Rightarrow> 'w Rpc \<Rightarrow> nat \<Rightarrow> bool option \<Rightarrow> AssembledTransaction \<Rightarrow> 'w
       \<Rightarrow> ((error + unit) \<times> AssembledTransaction \<times> 'w) option"
  and restoreFootprint ::
    "Lib \<Rightarrow> 'w Rpc \<Rightarrow> nat \<Rightarrow> AssembledTransaction \<Rightarrow> RestorePreamble \<Rightarrow> Account option \<Rightarrow> 'w
       \<Rightarrow> ((error + GetTransactionResponse \<times> Account) \<times> 'w) option"
  and buildFootprintRestoreTransaction ::
    "Lib \<Rightarrow> 'w Rpc \<Rightarrow> nat \<Rightarrow> AssembledTransactionOptions \<Rightarrow> SorobanTransactionData \<Rightarrow> Account
       \<Rightarrow> string \<Rightarrow> 'w \<Rightarrow> ((error + AssembledTransaction) \<times> 'w) option"
where
  "simulate L R 0 restore_arg this w = None"
| "simulate L R (Suc n) restore_arg this w =
     (case (case built this of
              Some b \<Rightarrow> Inr (b, this)
            | None \<Rightarrow>
                (case raw this of
                   None \<Rightarrow> Inl (Error ''Transaction has not yet been assembled; call `AssembledTransaction.build` first.'')
                 | Some tb \<Rightarrow>
                     (case build_raw L tb of
                        (b, tb') \<Rightarrow> Inr (b, this\<lparr> built := Some b, raw := Some tb' \<rparr>)))) of
        Inl e \<Rightarrow> Some (Inl e, this, w)
      | Inr (b, this1) \<Rightarrow>
     (let restore' = (case restore_arg of None \<Rightarrow> restore (options this1) | Some v \<Rightarrow> Some v);
          this2 = this1\<lparr> simulationResult := None, simulationTransactionData := None \<rparr>
      in case simulateTransaction R b w of
        (Inl e, w1) \<Rightarrow> Some (Inl e, this2, w1)
      | (Inr sim, w1) \<Rightarrow>
     (let this3 = this2\<lparr> simulation := Some sim \<rparr>
      in case (restore', sim) of
        (Some True, SimulateTransactionRestoreResponse s restorePreamble) \<Rightarrow>
          (case getAccount R (options this3) w1 of
             (Inl e, w2) \<Rightarrow> Some (Inl e, this3, w2)
           | (Inr account, w2) \<Rightarrow>
          (case restoreFootprint L R n this3 restorePreamble (Some account) w2 of
             None \<Rightarrow> None
           | Some (Inl e, w3) \<Rightarrow> Some (Inl e, this3, w3)
           | Some (Inr (result, account'), w3) \<Rightarrow>
               if status result = SUCCESS
               then simulate L R n None
                      (this3\<lparr> raw := Some (invokeBuilder L (options this3) account') \<rparr>) w3
               else Some (Inl (RestorationFailure (Some result)), this3, w3)))
      | _ \<Rightarrow>
          if isSimulationSuccess sim
          then (case assembleTransaction L b sim of
                  Inl e \<Rightarrow> Some (Inl e, this3, w1)
                | Inr tb \<Rightarrow>
                    Some (Inr (), this3\<lparr> built := Some (TransactionBuilder_build L tb) \<rparr>, w1))
          else Some (Inr (), this3, w1))))"
| "restoreFootprint L R n this restorePreamble account_arg w =
     (case signTransaction (options this) of
        None \<Rightarrow> Some (Inl (Error ''For automatic restore to work you must provide a signTransaction function when initializing your Client''), w)
      | Some signFn \<Rightarrow>
     (case (case account_arg of
              Some a \<Rightarrow> (Inr a, w)
            | None \<Rightarrow> getAccount R (options this) w) of
        (Inl e, w1) \<Rightarrow> Some (Inl e, w1)
      | (Inr account, w1) \<Rightarrow>
     (case buildFootprintRestoreTransaction L R n (options this)
             (transactionData restorePreamble) account (minResourceFee restorePreamble) w1 of
        None \<Rightarrow> None
      | Some (Inl e, w2) \<Rightarrow> Some (Inl e, w2)
      | Some (Inr restoreTx, w2) \<Rightarrow>
     (case signAndSend L R False None restoreTx w2 of
        (Inl e, restoreTx', w3) \<Rightarrow> Some (Inl e, w3)
      | (Inr sentTransaction, restoreTx', w3) \<Rightarrow>
     (case getTransactionResponse sentTransaction of
        None \<Rightarrow> Some (Inl (RestorationFailure None), w3)
      | Some response \<Rightarrow>
          Some (Inr (response,
                     (case raw restoreTx' of None \<Rightarrow> account | Some tb \<Rightarrow> tb_source tb)),
                w3))))))"
| "buildFootprintRestoreTransaction L R n opts sorobanData account fee_arg w =
     (case new_AssembledTransaction opts of
        Inl e \<Rightarrow> Some (Inl e, w)
      | Inr tx \<Rightarrow>
     (let tx1 = tx\<lparr> raw := Some
                  \<lparr> tb_source = account,
                    tb_fee = fee_arg,
                    tb_networkPassphrase = networkPassphrase opts,
                    tb_operations = [RestoreFootprint],
                    tb_timeout = Some (case timeoutInSeconds opts of
                                         None \<Rightarrow> DEFAULT_TIMEOUT L
                                       | Some t \<Rightarrow> t),
                    tb_sorobanData = Some sorobanData \<rparr> \<rparr>
      in case simulate L R n (Some False) tx1 w of
        None \<Rightarrow> None
      | Some (Inl e, tx2, w1) \<Rightarrow> Some (Inl e, w1)
      | Some (Inr u, tx2, w1) \<Rightarrow> Some (Inr tx2, w1)))"

  by pat_completeness auto
termination
  by (relation "measure (\<lambda>x. case x of
          Inl (L, R, n, a) \<Rightarrow> 3 * n
        | Inr (Inl (L, R, n, a)) \<Rightarrow> 3 * n + 2
        | Inr (Inr (L, R, n, a)) \<Rightarrow> 3 * n + 1)") auto

text \<open>The static factory \<^verbatim>\<open>AssembledTransaction.build\<close>.\<close>

definition build ::
  "Lib \<Rightarrow> 'w Rpc \<Rightarrow> nat \<Rightarrow> AssembledTransactionOptions \<Rightarrow> 'w
     \<Rightarrow> ((error + AssembledTransaction) \<times> 'w) option" where
  "build L R n opts w =
     (if falsy (publicKey opts)
      then Some (Inl (Error ''Public key not provided. Have you forgotten to set the `publicKey` in AssembledTransactionOptions?''), w)
      else
     (case new_AssembledTransaction opts of
        Inl e \<Rightarrow> Some (Inl e, w)
      | Inr tx \<Rightarrow>
     (case getAccount R opts w of
        (Inl e, w1) \<Rightarrow> Some (Inl e, w1)
      | (Inr account, w1) \<Rightarrow>
     (let tx1 = tx\<lparr> raw := Some (invokeBuilder L opts account) \<rparr>
      in if opt_simulate (options tx1) = Some True
         then (case simulate L R n None tx1 w1 of
                 None \<Rightarrow> None
               | Some (Inl e, tx2, w2) \<Rightarrow> Some (Inl e, w2)
               | Some (Inr u, tx2, w2) \<Rightarrow> Some (Inr tx2, w2))
         else Some (Inr tx1, w1)))))"

section \<open>Predicates used in the statements\<close>

text \<open>Both cache fields of the simulation data are filled.\<close>

definition cachePopulated :: "AssembledTransaction \<Rightarrow> bool" where
  "cachePopulated this =
     (simulationResult this \<noteq> None \<and> simulationTransactionData this \<noteq> None)"

text \<open>
  For the statements about \<open>sign\<close>: the identities that are not contract addresses, the
  transaction as \<open>sign\<close> finalizes it again, and the wallet callback in force (the one
  passed to the call, or else the one of the options).
\<close>

definition nonContract :: "string list \<Rightarrow> string list" where
  "nonContract ids = filter (\<lambda>id. \<not> startsWith id ''C'') ids"

definition refinalized :: "Lib \<Rightarrow> AssembledTransactionOptions \<Rightarrow> Tx \<Rightarrow> SorobanTransactionData \<Rightarrow> Tx" where
  "refinalized L opts b d =
     TransactionBuilder_build L
       ((TransactionBuilder_cloneFrom L b (tx_fee b) d)
          \<lparr> tb_timeout := Some (case timeoutInSeconds opts of
                                  None \<Rightarrow> DEFAULT_TIMEOUT L
                                | Some t \<Rightarrow> t) \<rparr>)"

definition envelopeSigner ::
  "signTransaction_fn option \<Rightarrow> AssembledTransaction \<Rightarrow> signTransaction_fn option" where
  "envelopeSigner signTransaction_arg this =
     (case signTransaction_arg of None \<Rightarrow> signTransaction (options this) | Some f \<Rightarrow> Some f)"

text \<open>
  For the statements about \<open>signAuthEntries\<close>: the address whose entries are signed (the
  one passed to the call, or else the public key of the options), whether an entry is
  one of that address, and the entry-signing callback in force.
\<close>

definition signingAddress :: "string option \<Rightarrow> AssembledTransaction \<Rightarrow> string option" where
  "signingAddress address_arg this =
     (case address_arg of None \<Rightarrow> publicKey (options this) | Some a \<Rightarrow> Some a)"

definition targetsAddress :: "string option \<Rightarrow> SorobanAuthorizationEntry \<Rightarrow> bool" where
  "targetsAddress addr entry =
     (case credentials entry of
        sorobanCredentialsSourceAccount \<Rightarrow> False
      | sorobanCredentialsAddress c \<Rightarrow> Some (Address_toString (address c)) = addr)"

definition entrySigner ::
  "signAuthEntry_fn option \<Rightarrow> AssembledTransaction \<Rightarrow> signAuthEntry_fn option" where
  "entrySigner signAuthEntry_arg this =
     (case signAuthEntry_arg of None \<Rightarrow> signAuthEntry (options this) | Some f \<Rightarrow> Some f)"

text \<open>
  For the statements about the restore transaction: its builder, as
  \<open>buildFootprintRestoreTransaction\<close> sets it up, and the object \<open>simulate\<close> has made of
  \<open>this\<close> once the server has answered.
\<close>

definition restoreBuilder ::
  "Lib \<Rightarrow> AssembledTransactionOptions \<Rightarrow> SorobanTransactionData \<Rightarrow> Account \<Rightarrow> string
     \<Rightarrow> TransactionBuilder" where
  "restoreBuilder L opts sorobanData account fee_arg =
     \<lparr> tb_source = account, tb_fee = fee_arg, tb_networkPassphrase = networkPassphrase opts,
       tb_operations = [RestoreFootprint],
       tb_timeout = Some (case timeoutInSeconds opts of None \<Rightarrow> DEFAULT_TIMEOUT L | Some t \<Rightarrow> t),
       tb_sorobanData = Some sorobanData \<rparr>"

definition simulated_with ::
  "AssembledTransaction \<Rightarrow> SimulateTransactionResponse \<Rightarrow> AssembledTransaction" where
  "simulated_with this sim =
     this\<lparr> simulationResult := None, simulationTransactionData := None, simulation := Some sim \<rparr>"

text \<open>The restore call as \<open>simulate\<close> finds it once it has built the draft.\<close>

definition restoreCall ::
  "Lib \<Rightarrow> AssembledTransactionOptions \<Rightarrow> SorobanTransactionData \<Rightarrow> Account \<Rightarrow> string
     \<Rightarrow> AssembledTransaction" where
  "restoreCall L opts sorobanData account fee_arg =
     \<lparr> options = opts\<lparr> opt_simulate :=
                      Some (case opt_simulate opts of None \<Rightarrow> True | Some v \<Rightarrow> v) \<rparr>,
       raw = Some ((restoreBuilder L opts sorobanData account fee_arg)
                     \<lparr> tb_source := incrementSequenceNumber account \<rparr>),
       built = Some (TransactionBuilder_build L (restoreBuilder L opts sorobanData account fee_arg)),
       simulation = None, simulationResult = None, simulationTransactionData = None,
       signed = None \<rparr>"

text \<open>
  The result that \<open>simulationData\<close> derives from a success response; the restore call once
  its simulation has succeeded and has been assembled into \<open>tb\<close>; and that call as
  \<open>sign\<close> leaves it when the wallet's answer decodes to \<open>signedTx\<close>.
\<close>

definition resultOrDefault :: "SimulationSuccess \<Rightarrow> SimulateHostFunctionResult" where
  "resultOrDefault s =
     (case sim_result s of None \<Rightarrow> \<lparr> auth = [], retval = scvVoid \<rparr> | Some v \<Rightarrow> v)"

definition restoreSimulated ::
  "Lib \<Rightarrow> AssembledTransactionOptions \<Rightarrow> SorobanTransactionData \<Rightarrow> Account \<Rightarrow> string
     \<Rightarrow> SimulateTransactionResponse \<Rightarrow> TransactionBuilder \<Rightarrow> AssembledTransaction" where
  "restoreSimulated L opts sorobanData account fee_arg sim tb =
     (simulated_with (restoreCall L opts sorobanData account fee_arg) sim)
       \<lparr> built := Some (TransactionBuilder_build L tb) \<rparr>"

definition restoreSigned ::
  "Lib \<Rightarrow> AssembledTransactionOptions \<Rightarrow> SorobanTransactionData \<Rightarrow> Account \<Rightarrow> string
     \<Rightarrow> SimulationSuccess \<Rightarrow> TransactionBuilder \<Rightarrow> Tx \<Rightarrow> AssembledTransaction" where
  "restoreSigned L opts sorobanData account fee_arg s tb signedTx =
     (restoreSimulated L opts sorobanData account fee_arg (SimulateTransactionSuccessResponse s) tb)
       \<lparr> simulationResult := Some (resultOrDefault s),
         simulationTransactionData := Some (sim_transactionData s),
         built := Some (refinalized L opts (TransactionBuilder_build L tb) (sim_transactionData s)),
         signed := Some signedTx \<rparr>"

section \<open>Sample values for the worked examples\<close>

text \<open>
  Alice submits a swap that Bob and Carol authorize; Carol has signed, Bob has not. The
  entry of the submitter carries source-account credentials.
\<close>

definition entry_source :: SorobanAuthorizationEntry where
  "entry_source = \<lparr> credentials = sorobanCredentialsSourceAccount, rootInvocation = ''swap'' \<rparr>"

definition entry_bob :: SorobanAuthorizationEntry where
  "entry_bob =
     \<lparr> credentials = sorobanCredentialsAddress
         \<lparr> address = scAddressTypeAccount ''BOB'', nonce = 1,
           signatureExpirationLedger = 0, signature = scvVoid \<rparr>,
       rootInvocation = ''transfer'' \<rparr>"

definition entry_carol :: SorobanAuthorizationEntry where
  "entry_carol =
     \<lparr> credentials = sorobanCredentialsAddress
         \<lparr> address = scAddressTypeAccount ''CAROL'', nonce = 2,
           signatureExpirationLedger = 1100, signature = scvBytes ''carol-sig'' \<rparr>,
       rootInvocation = ''transfer'' \<rparr>"

definition entry_token :: SorobanAuthorizationEntry where
  "entry_token =
     \<lparr> credentials = sorobanCredentialsAddress
         \<lparr> address = scAddressTypeContract ''TOKEN'', nonce = 3,
           signatureExpirationLedger = 0, signature = scvVoid \<rparr>,
       rootInvocation = ''burn'' \<rparr>"

definition sample_data :: SorobanTransactionData where
  "sample_data =
     \<lparr> resources = \<lparr> footprint = \<lparr> readOnly = [''k0''], readWrite = [''k1''] \<rparr>,
                     instructions = 1000 \<rparr>,
       resourceFee = 500 \<rparr>"

definition sample_tx :: "SorobanAuthorizationEntry list \<Rightarrow> Tx" where
  "sample_tx es =
     \<lparr> tx_source = ''GALICE'', tx_sequence = 8, tx_fee = ''600'',
       tx_networkPassphrase = ''Test SDF Network ; September 2015'',
       operations = [InvokeHostFunction (hostFunctionTypeInvokeContract ''CSWAP'' ''swap'' []) es],
       tx_timeBounds = Some (0, 300), tx_sorobanData = Some sample_data, signatures = [] \<rparr>"

definition sample_success :: SimulateTransactionResponse where
  "sample_success =
     SimulateTransactionSuccessResponse
       \<lparr> sim_result = Some \<lparr> auth = [entry_source, entry_bob], retval = scvU32 5 \<rparr>,
         sim_transactionData = sample_data, sim_minResourceFee = ''500'' \<rparr>"

definition sample_wallet :: signTransaction_fn where
  "sample_wallet xdr passphrase = Inr (xdr @ ''+alice'')"

definition sample_options :: AssembledTransactionOptions where
  "sample_options =
     \<lparr> contractId = ''CSWAP'', method = ''swap'', args = None, publicKey = Some ''GALICE'',
       networkPassphrase = ''Test SDF Network ; September 2015'', rpcUrl = ''https://rpc.example'',
       fee = None, timeoutInSeconds = None, opt_simulate = Some True, restore = None,
       signTransaction = Some sample_wallet, signAuthEntry = None \<rparr>"

definition sample_call ::
  "SorobanAuthorizationEntry list \<Rightarrow> SimulateTransactionResponse option \<Rightarrow> AssembledTransaction" where
  "sample_call es sim =
     \<lparr> options = sample_options, raw = None, built = Some (sample_tx es), simulation = sim,
       simulationResult = None, simulationTransactionData = None, signed = None \<rparr>"

text \<open>
  A sample base library. Its builder copies the fields it is given, and its codec is a
  table of the values of the examples.
\<close>

definition sample_build :: "TransactionBuilder \<Rightarrow> Tx" where
  "sample_build tb =
     \<lparr> tx_source = accountId (tb_source tb), tx_sequence = Suc (sequence (tb_source tb)),
       tx_fee = tb_fee tb, tx_networkPassphrase = tb_networkPassphrase tb,
       operations = tb_operations tb,
       tx_timeBounds = map_option (Pair 0) (tb_timeout tb),
       tx_sorobanData = tb_sorobanData tb, signatures = [] \<rparr>"

definition sample_cloneFrom :: "Tx \<Rightarrow> string \<Rightarrow> SorobanTransactionData \<Rightarrow> TransactionBuilder" where
  "sample_cloneFrom t f d =
     \<lparr> tb_source = \<lparr> accountId = tx_source t, sequence = tx_sequence t - 1 \<rparr>,
       tb_fee = f, tb_networkPassphrase = tx_networkPassphrase t,
       tb_operations = operations t, tb_timeout = None, tb_sorobanData = Some d \<rparr>"

text \<open>
  The sample \<open>assembleTransaction\<close> follows the RPC module: it refuses a transaction that
  is not a single contract call or restore, and a contract call without authorization
  entries takes those of the simulation result, which must then be there.
\<close>

definition sample_assemble_success :: "Tx \<Rightarrow> SimulationSuccess \<Rightarrow> error + TransactionBuilder" where
  "sample_assemble_success t s =
     (let clone = (sample_cloneFrom t (sim_minResourceFee s) (sim_transactionData s))
                    \<lparr> tb_timeout := Some 300 \<rparr>
      in case operations t of
        [ope] \<Rightarrow>
          (case ope of
             InvokeHostFunction f es \<Rightarrow>
               if es \<noteq> [] then Inr clone
               else (case sim_result s of
                       None \<Rightarrow> Inl (TypeError ''Cannot read properties of undefined (reading auth)'')
                     | Some r \<Rightarrow> Inr (clone\<lparr> tb_operations := [InvokeHostFunction f (auth r)] \<rparr>))
           | RestoreFootprint \<Rightarrow> Inr clone
           | OtherOperation x \<Rightarrow> Inl (TypeError ''unsupported transaction''))
      | _ \<Rightarrow> Inl (TypeError ''unsupported transaction''))"

definition sample_assemble :: "Tx \<Rightarrow> SimulateTransactionResponse \<Rightarrow> error + TransactionBuilder" where
  "sample_assemble t sim =
     (case sim of
        SimulateTransactionErrorResponse e \<Rightarrow> Inl (Error ''simulation incorrect'')
      | SimulateTransactionSuccessResponse s \<Rightarrow> sample_assemble_success t s
      | SimulateTransactionRestoreResponse s p \<Rightarrow> sample_assemble_success t s)"

definition sample_authorizeEntry :: authorizeEntry_fn where
  "sample_authorizeEntry entry signer validUntil passphrase =
     (case credentials entry of
        sorobanCredentialsSourceAccount \<Rightarrow> Inr entry
      | sorobanCredentialsAddress c \<Rightarrow>
          (case signer (''preimage:'' @ rootInvocation entry) of
             Inl e \<Rightarrow> Inl e
           | Inr sg \<Rightarrow>
               Inr (entry\<lparr> credentials := sorobanCredentialsAddress
                      (c\<lparr> signatureExpirationLedger := validUntil,
                          signature := scvBytes sg \<rparr>) \<rparr>)))"

definition encode_with :: "('a \<times> string) list \<Rightarrow> 'a \<Rightarrow> string" where
  "encode_with tab v = (case map_of tab v of Some s \<Rightarrow> s | None \<Rightarrow> ''?'')"

definition decode_with :: "('a \<times> string) list \<Rightarrow> string \<Rightarrow> error + 'a" where
  "decode_with tab s =
     (case map_of (map (\<lambda>(v, c). (c, v)) tab) s of
        Some v \<Rightarrow> Inr v
      | None \<Rightarrow> Inl (Rejected ''not XDR''))"

definition tx_table :: "(Tx \<times> string) list" where
  "tx_table = [(sample_tx [entry_source, entry_bob], ''AAAAAgAAAAA='')]"

definition entry_table :: "(SorobanAuthorizationEntry \<times> string) list" where
  "entry_table =
     [(entry_source, ''AAAAAA==''), (entry_bob, ''AAAAAQAAAAE=''),
      (entry_carol, ''AAAAAQAAAAI=''), (entry_token, ''AAAAAQAAAAM='')]"

definition scval_table :: "(ScVal \<times> string) list" where
  "scval_table = [(scvVoid, ''AAAAAQ==''), (scvU32 5, ''AAAAAwAAAAU='')]"

definition data_table :: "(SorobanTransactionData \<times> string) list" where
  "data_table = [(sample_data, ''AAAAAAAAAAE='')]"

definition sample_lib :: Lib where
  "sample_lib =
     \<lparr> BASE_FEE = ''100'', DEFAULT_TIMEOUT = 300,
       TransactionBuilder_build = sample_build,
       TransactionBuilder_cloneFrom = sample_cloneFrom,
       TransactionBuilder_fromXDR = (\<lambda>s passphrase. decode_with tx_table s),
       Tx_toXDR = encode_with tx_table,
       SorobanAuthorizationEntry_toXDR = encode_with entry_table,
       SorobanAuthorizationEntry_fromXDR = decode_with entry_table,
       ScVal_toXDR = encode_with scval_table,
       ScVal_fromXDR = decode_with scval_table,
       SorobanTransactionData_toXDR = encode_with data_table,
       SorobanTransactionData_fromXDR = decode_with data_table,
       stellarBaseAuthorizeEntry = sample_authorizeEntry,
       assembleTransaction = sample_assemble \<rparr>"

definition sample_restore :: SimulateTransactionResponse where
  "sample_restore =
     SimulateTransactionRestoreResponse
       \<lparr> sim_result = None, sim_transactionData = sample_data, sim_minResourceFee = ''500'' \<rparr>
       \<lparr> minResourceFee = ''700'', transactionData = sample_data \<rparr>"

definition sample_void :: SimulateTransactionResponse where
  "sample_void =
     SimulateTransactionSuccessResponse
       \<lparr> sim_result = None, sim_transactionData = sample_data, sim_minResourceFee = ''500'' \<rparr>"

definition sample_read :: SimulateTransactionResponse where
  "sample_read =
     SimulateTransactionSuccessResponse
       \<lparr> sim_result = Some \<lparr> auth = [], retval = scvU32 5 \<rparr>,
         sim_transactionData =
           \<lparr> resources = \<lparr> footprint = \<lparr> readOnly = [''k0''], readWrite = [] \<rparr>,
                           instructions = 1000 \<rparr>,
             resourceFee = 500 \<rparr>,
         sim_minResourceFee = ''500'' \<rparr>"

definition signing_lib :: "Tx \<Rightarrow> Lib" where
  "signing_lib signedTx =
     sample_lib
       \<lparr> TransactionBuilder_fromXDR :=
           (\<lambda>s passphrase. if s = ''GALICE/600+alice'' then Inr signedTx
                            else Inl (Rejected ''not XDR'')),
         Tx_toXDR := (\<lambda>t. tx_source t @ ''/'' @ tx_fee t) \<rparr>"

definition sample_signed :: Tx where
  "sample_signed = (sample_tx [entry_source, entry_carol, entry_token])\<lparr> signatures := [''alice''] \<rparr>"

definition no_wallet :: "AssembledTransaction \<Rightarrow> AssembledTransaction" where
  "no_wallet this = this\<lparr> options := (options this)\<lparr> signTransaction := None \<rparr> \<rparr>"

text \<open>
  A sample server. It answers the simulations from a script, in order, and counts them;
  it accepts the submission of an object that holds a signed envelope, counts it, and
  reports the given outcome, or no response at all; it rejects an object without one.
\<close>

record world =
  simulated :: nat
  submitted :: nat

definition sample_rpc ::
  "SimulateTransactionResponse list \<Rightarrow> GetTransactionStatus option \<Rightarrow> world Rpc" where
  "sample_rpc script outcome =
     \<lparr> simulateTransaction =
         (\<lambda>t w. (if simulated w < length script then Inr (script ! simulated w)
                  else Inl (Rejected ''connection closed''),
                  w\<lparr> simulated := Suc (simulated w) \<rparr>)),
       getLatestLedger = (\<lambda>w. (Inr 1000, w)),
       getAccount =
         (\<lambda>opts w. (case publicKey opts of
                       None \<Rightarrow> Inr \<lparr> accountId = ''GAAAA'', sequence = 0 \<rparr>
                     | Some k \<Rightarrow> Inr \<lparr> accountId = k, sequence = 7 + submitted w \<rparr>,
                     w)),
       SentTransaction_init =
         (\<lambda>this w. (case signed this of
                       None \<Rightarrow> (Inl (Rejected ''txBadAuth''), w)
                     | Some t \<Rightarrow>
                         (Inr \<lparr> getTransactionResponse =
                                 map_option (\<lambda>st. \<lparr> status = st, latestLedger = 1000 \<rparr>) outcome \<rparr>,
                          w\<lparr> submitted := Suc (submitted w) \<rparr>))) \<rparr>"

definition bob_signer :: signAuthEntry_fn where
  "bob_signer preimage accountToSign = Inr (''signed-by-'' @ accountToSign)"

definition entry_bob_signed :: SorobanAuthorizationEntry where
  "entry_bob_signed =
     \<lparr> credentials = sorobanCredentialsAddress
         \<lparr> address = scAddressTypeAccount ''BOB'', nonce = 1,
           signatureExpirationLedger = 1100, signature = scvBytes ''signed-by-GBOB'' \<rparr>,
       rootInvocation = ''transfer'' \<rparr>"

definition world0 :: world where
  "world0 = \<lparr> simulated = 0, submitted = 0 \<rparr>"

definition keep_entry :: authorizeEntry_fn where
  "keep_entry entry signer validUntil passphrase = Inr entry"

definition sample_restore_sim :: SimulateTransactionResponse where
  "sample_restore_sim =
     SimulateTransactionSuccessResponse
       \<lparr> sim_result = None, sim_transactionData = sample_data, sim_minResourceFee = ''600'' \<rparr>"

definition sample_preamble :: RestorePreamble where
  "sample_preamble = \<lparr> minResourceFee = ''700'', transactionData = sample_data \<rparr>"

definition alice :: "nat \<Rightarrow> Account" where
  "alice k = \<lparr> accountId = ''GALICE'', sequence = k \<rparr>"

definition with_restore :: "bool option \<Rightarrow> AssembledTransaction \<Rightarrow> AssembledTransaction" where
  "with_restore r this = this\<lparr> options := (options this)\<lparr> restore := r \<rparr> \<rparr>"


text \<open>
  An entry that carries address credentials for Alice, the submitter, and a restore
  response that comes with a simulation result.
\<close>

definition entry_alice :: SorobanAuthorizationEntry where
  "entry_alice =
     \<lparr> credentials = sorobanCredentialsAddress
         \<lparr> address = scAddressTypeAccount ''ALICE'', nonce = 4,
           signatureExpirationLedger = 0, signature = scvVoid \<rparr>,
       rootInvocation = ''swap'' \<rparr>"

definition sample_restore_again :: SimulateTransactionResponse where
  "sample_restore_again =
     SimulateTransactionRestoreResponse
       \<lparr> sim_result = Some \<lparr> auth = [], retval = scvVoid \<rparr>,
         sim_transactionData = sample_data, sim_minResourceFee = ''500'' \<rparr>
       \<lparr> minResourceFee = ''700'', transactionData = sample_data \<rparr>"

text \<open>
  The success part of the answer to the simulation of the restore transaction, and the
  builder that the sample \<open>assembleTransaction\<close> makes of the two.
\<close>

definition sample_restore_s :: SimulationSuccess where
  "sample_restore_s =
     \<lparr> sim_result = None, sim_transactionData = sample_data, sim_minResourceFee = ''600'' \<rparr>"

definition sample_restore_tb :: "AssembledTransactionOptions \<Rightarrow> nat \<Rightarrow> TransactionBuilder" where
  "sample_restore_tb opts k =
     (sample_cloneFrom
        (sample_build (restoreBuilder (signing_lib sample_signed) opts sample_data (alice k) ''700''))
        ''600'' sample_data)\<lparr> tb_timeout := Some 300 \<rparr>"



section \<open>The cached simulation data\<close>

lemma simulationData_cached:
  "simulationResult this = Some r \<Longrightarrow> simulationTransactionData this = Some d \<Longrightarrow>
   simulationData this = (Inr (r, d), this)"
  by (simp add: simulationData_def)

lemma simulationData_uncached:
  "\<not> cachePopulated this \<Longrightarrow>
   simulationData this =
     (case simulation this of
        None \<Rightarrow> (Inl NotYetSimulated, this)
      | Some (SimulateTransactionErrorResponse e) \<Rightarrow>
          (Inl (Error (''Transaction simulation failed: '' @ [CHR 0x22] @ e @ [CHR 0x22])), this)
      | Some (SimulateTransactionRestoreResponse s p) \<Rightarrow> (Inl ExpiredState, this)
      | Some (SimulateTransactionSuccessResponse s) \<Rightarrow>
          (let r = (case sim_result s of
                      None \<Rightarrow> \<lparr> auth = [], retval = scvVoid \<rparr>
                    | Some v \<Rightarrow> v);
               d = sim_transactionData s
           in (Inr (r, d),
               this\<lparr> simulationResult := Some r, simulationTransactionData := Some d \<rparr>)))"
  by (auto simp: simulationData_def cachePopulated_def split: option.splits)

lemma simulationData_Inr_cached:
  assumes "simulationData this = (Inr (r, d), this')"
  shows "simulationResult this' = Some r \<and> simulationTransactionData this' = Some d"
  using assms
  by (auto simp: simulationData_def Let_def
      split: option.splits SimulateTransactionResponse.splits)

lemma simulationData_idem:
  assumes "simulationData this = (Inr v, this')"
  shows "simulationData this' = (Inr v, this')"
proof -
  obtain r d where v: "v = (r, d)" by (cases v)
  from assms v simulationData_Inr_cached[of this r d this']
  show ?thesis by (simp add: simulationData_cached)
qed

lemma simulationData_Inl_same:
  "simulationData this = (Inl e, this') \<Longrightarrow> this' = this"
  by (auto simp: simulationData_def Let_def
      split: option.splits SimulateTransactionResponse.splits)

text \<open>
  Claim C3. Reading \<open>simulationData\<close> returns the cached pair when both cache fields
  are filled, whatever the raw simulation is. Otherwise it fails with \<open>NotYetSimulated\<close>
  when there is no raw simulation, with the plain error "Transaction simulation failed"
  (the specification's SimulationFailed) when the raw response is an error, and with
  \<open>ExpiredState\<close> when it is a restore response; on a success response it derives the
  pair, with an empty authorization list and a void return value when the response has no
  result, and stores it in the cache. Once a read has succeeded, reading again returns
  the same pair and changes nothing.
\<close>

theorem simulationData_spec:
  assumes c: "simulationResult cached = Some r" "simulationTransactionData cached = Some d"
    and f: "\<not> cachePopulated fresh" "simulation fresh = None"
    and e: "\<not> cachePopulated failed" "simulation failed = Some (SimulateTransactionErrorResponse msg)"
    and x: "\<not> cachePopulated expired"
           "simulation expired = Some (SimulateTransactionRestoreResponse s p)"
    and k: "\<not> cachePopulated ok" "simulation ok = Some (SimulateTransactionSuccessResponse s')"
    and a: "simulationData this = (Inr v, this')"
  shows "simulationData (cached\<lparr> simulation := any \<rparr>) = (Inr (r, d), cached\<lparr> simulation := any \<rparr>)
       \<and> simulationData fresh = (Inl NotYetSimulated, fresh)
       \<and> simulationData failed =
           (Inl (Error (''Transaction simulation failed: '' @ [CHR 0x22] @ msg @ [CHR 0x22])), failed)
       \<and> simulationData expired = (Inl ExpiredState, expired)
       \<and> simulationData ok =
           (Inr ((case sim_result s' of None \<Rightarrow> \<lparr> auth = [], retval = scvVoid \<rparr> | Some res \<Rightarrow> res),
                 sim_transactionData s'),
            ok\<lparr> simulationResult :=
                   Some (case sim_result s' of None \<Rightarrow> \<lparr> auth = [], retval = scvVoid \<rparr> | Some res \<Rightarrow> res),
                 simulationTransactionData := Some (sim_transactionData s') \<rparr>)
       \<and> simulationData this' = (Inr v, this')"
proof -
  have 1: "simulationData (cached\<lparr> simulation := any \<rparr>) = (Inr (r, d), cached\<lparr> simulation := any \<rparr>)"
    using c by (simp add: simulationData_cached)
  have 2: "simulationData fresh = (Inl NotYetSimulated, fresh)"
    using f by (simp add: simulationData_uncached)
  have 3: "simulationData failed =
           (Inl (Error (''Transaction simulation failed: '' @ [CHR 0x22] @ msg @ [CHR 0x22])), failed)"
    using e by (simp add: simulationData_uncached)
  have 4: "simulationData expired = (Inl ExpiredState, expired)"
    using x by (simp add: simulationData_uncached)
  have 5: "simulationData ok =
           (Inr ((case sim_result s' of None \<Rightarrow> \<lparr> auth = [], retval = scvVoid \<rparr> | Some res \<Rightarrow> res),
                 sim_transactionData s'),
            ok\<lparr> simulationResult :=
                   Some (case sim_result s' of None \<Rightarrow> \<lparr> auth = [], retval = scvVoid \<rparr> | Some res \<Rightarrow> res),
                 simulationTransactionData := Some (sim_transactionData s') \<rparr>)"
    using k by (simp add: simulationData_uncached Let_def)
  have 6: "simulationData this' = (Inr v, this')"
    using a by (rule simulationData_idem)
  from 1 2 3 4 5 6 show ?thesis by blast
qed

theorem simulationData_spec_witness:
  "simulationData ((sample_call [] None)\<lparr> simulationResult := Some \<lparr> auth = [], retval = scvU32 5 \<rparr>,
        simulationTransactionData := Some sample_data,
        simulation := Some (SimulateTransactionErrorResponse ''boom'') \<rparr>)
     = (Inr (\<lparr> auth = [], retval = scvU32 5 \<rparr>, sample_data),
        (sample_call [] None)\<lparr> simulationResult := Some \<lparr> auth = [], retval = scvU32 5 \<rparr>,
        simulationTransactionData := Some sample_data,
        simulation := Some (SimulateTransactionErrorResponse ''boom'') \<rparr>)
   \<and> simulationData (sample_call [] None) = (Inl NotYetSimulated, sample_call [] None)
   \<and> simulationData (sample_call [] (Some (SimulateTransactionErrorResponse ''boom'')))
     = (Inl (Error (''Transaction simulation failed: '' @ [CHR 0x22] @ ''boom'' @ [CHR 0x22])),
        sample_call [] (Some (SimulateTransactionErrorResponse ''boom'')))
   \<and> simulationData (sample_call [] (Some sample_restore))
     = (Inl ExpiredState, sample_call [] (Some sample_restore))
   \<and> simulationData (sample_call [] (Some sample_void))
     = (Inr (\<lparr> auth = [], retval = scvVoid \<rparr>, sample_data),
        (sample_call [] (Some sample_void))\<lparr> simulationResult := Some \<lparr> auth = [], retval = scvVoid \<rparr>,
           simulationTransactionData := Some sample_data \<rparr>)
   \<and> simulationData ((sample_call [] (Some sample_void))\<lparr> simulationResult := Some \<lparr> auth = [], retval = scvVoid \<rparr>,
           simulationTransactionData := Some sample_data \<rparr>)
     = (Inr (\<lparr> auth = [], retval = scvVoid \<rparr>, sample_data),
        (sample_call [] (Some sample_void))\<lparr> simulationResult := Some \<lparr> auth = [], retval = scvVoid \<rparr>,
           simulationTransactionData := Some sample_data \<rparr>)"
proof -
  let ?cached = "(sample_call [] None)\<lparr> simulationResult := Some \<lparr> auth = [], retval = scvU32 5 \<rparr>,
        simulationTransactionData := Some sample_data \<rparr>"
  let ?ok = "sample_call [] (Some sample_void)"
  let ?ok' = "?ok\<lparr> simulationResult := Some \<lparr> auth = [], retval = scvVoid \<rparr>,
           simulationTransactionData := Some sample_data \<rparr>"
  have c: "simulationResult ?cached = Some \<lparr> auth = [], retval = scvU32 5 \<rparr>"
          "simulationTransactionData ?cached = Some sample_data" by simp_all
  have f: "\<not> cachePopulated (sample_call [] None)" "simulation (sample_call [] None) = None"
    by (simp_all add: cachePopulated_def sample_call_def)
  have e: "\<not> cachePopulated (sample_call [] (Some (SimulateTransactionErrorResponse ''boom'')))"
    "simulation (sample_call [] (Some (SimulateTransactionErrorResponse ''boom'')))
       = Some (SimulateTransactionErrorResponse ''boom'')"
    by (simp_all add: cachePopulated_def sample_call_def)
  have x: "\<not> cachePopulated (sample_call [] (Some sample_restore))"
    "simulation (sample_call [] (Some sample_restore)) =
       Some (SimulateTransactionRestoreResponse
       \<lparr> sim_result = None, sim_transactionData = sample_data, sim_minResourceFee = ''500'' \<rparr>
       \<lparr> minResourceFee = ''700'', transactionData = sample_data \<rparr>)"
    by (simp_all add: cachePopulated_def sample_call_def sample_restore_def)
  have k: "\<not> cachePopulated ?ok"
    "simulation ?ok = Some (SimulateTransactionSuccessResponse
       \<lparr> sim_result = None, sim_transactionData = sample_data, sim_minResourceFee = ''500'' \<rparr>)"
    by (simp_all add: cachePopulated_def sample_call_def sample_void_def)
  have a: "simulationData ?ok = (Inr (\<lparr> auth = [], retval = scvVoid \<rparr>, sample_data), ?ok')"
    by (simp add: simulationData_def sample_call_def sample_void_def Let_def)
  from simulationData_spec[OF c f e x k a, of "Some (SimulateTransactionErrorResponse ''boom'')"]
  show ?thesis by simp
qed

section \<open>Read calls\<close>

lemma isReadCall_eq:
  assumes "simulationData x = (Inr (r, d), x')"
  shows "isReadCall x =
           (Inr (length (auth r) = 0 \<and> length (readWrite (footprint (resources d))) = 0), x')"
  using assms simulationData_idem[OF assms]
  by (simp add: isReadCall_def)

text \<open>
  Claim C6. When the simulation data can be read, \<open>isReadCall\<close> is true exactly when the
  simulation result has no authorization entry and the footprint of the transaction data
  has no read-write entry. It depends on the simulation data only: two objects whose
  simulation data are the same pair, however each came to hold it, give the same answer.
\<close>

theorem isReadCall_spec:
  assumes x: "simulationData x = (Inr (r, d), x')"
    and y: "simulationData y = (Inr (r, d), y')"
  shows "isReadCall x =
           (Inr (length (auth r) = 0 \<and> length (readWrite (footprint (resources d))) = 0), x')
       \<and> fst (isReadCall y) = fst (isReadCall x)"
  by (simp add: isReadCall_eq[OF x] isReadCall_eq[OF y])

theorem isReadCall_spec_witness:
  "isReadCall (sample_call [] (Some sample_read)) =
     (Inr True,
      (sample_call [] (Some sample_read))
        \<lparr> simulationResult := Some \<lparr> auth = [], retval = scvU32 5 \<rparr>,
          simulationTransactionData :=
            Some \<lparr> resources = \<lparr> footprint = \<lparr> readOnly = [''k0''], readWrite = [] \<rparr>,
                                  instructions = 1000 \<rparr>,
                   resourceFee = 500 \<rparr> \<rparr>)
   \<and> fst (isReadCall
         ((sample_call [] None)
            \<lparr> simulationResult := Some \<lparr> auth = [], retval = scvU32 5 \<rparr>,
              simulationTransactionData :=
                Some \<lparr> resources = \<lparr> footprint = \<lparr> readOnly = [''k0''], readWrite = [] \<rparr>,
                                      instructions = 1000 \<rparr>,
                       resourceFee = 500 \<rparr> \<rparr>)) = Inr True"
proof -
  let ?r = "\<lparr> auth = [], retval = scvU32 5 \<rparr>"
  let ?d = "\<lparr> resources = \<lparr> footprint = \<lparr> readOnly = [''k0''], readWrite = [] \<rparr>,
                                  instructions = 1000 \<rparr>,
                   resourceFee = 500 \<rparr>"
  let ?x = "sample_call [] (Some sample_read)"
  let ?y = "(sample_call [] None)\<lparr> simulationResult := Some ?r, simulationTransactionData := Some ?d \<rparr>"
  have x: "simulationData ?x =
             (Inr (?r, ?d), ?x\<lparr> simulationResult := Some ?r, simulationTransactionData := Some ?d \<rparr>)"
    by (simp add: simulationData_def sample_call_def sample_read_def Let_def)
  have y: "simulationData ?y = (Inr (?r, ?d), ?y)"
    by (simp add: simulationData_def)
  from isReadCall_spec[OF x y] show ?thesis by simp
qed

section \<open>Serialization round trip\<close>

lemma decode_all_roundtrip:
  "\<forall>a \<in> set xs. dec (enc a) = Inr a \<Longrightarrow> decode_all dec (map enc xs) = Inr xs"
  by (induction xs) auto

lemma toJSON_eq:
  assumes "simulationData x = (Inr (r, d), x1)"
  shows "toJSON L x = (Inr \<lparr> json_method = method (options x),
                 json_tx = map_option (Tx_toXDR L) (built x),
                 json_auth = map (SorobanAuthorizationEntry_toXDR L) (auth r),
                 json_retval = ScVal_toXDR L (retval r),
                 json_simulationTransactionData = SorobanTransactionData_toXDR L d \<rparr>, x1)"
  using assms simulationData_idem[OF assms]
  by (simp add: toJSON_def)

text \<open>
  Claim C2. Let \<open>x\<close> be finalized and successfully simulated, and let the codec decode
  what it encoded of \<open>x\<close>'s transaction, authorization entries, return value and
  transaction data. Then \<open>toJSON\<close> succeeds, \<open>fromJSON\<close> with \<open>x\<close>'s options succeeds on
  its output, and the object it gives has the same simulation data (result with its
  authorization entries and return value, and transaction data) and the same built
  transaction as \<open>x\<close>.
\<close>

theorem toJSON_fromJSON_roundtrip:
  assumes b: "built x = Some b"
    and sd: "simulationData x = (Inr (r, d), x1)"
    and pk: "\<not> falsy (publicKey (options x))"
    and tx: "TransactionBuilder_fromXDR L (Tx_toXDR L b) (networkPassphrase (options x)) = Inr b"
    and au: "\<forall>a \<in> set (auth r).
               SorobanAuthorizationEntry_fromXDR L (SorobanAuthorizationEntry_toXDR L a) = Inr a"
    and rv: "ScVal_fromXDR L (ScVal_toXDR L (retval r)) = Inr (retval r)"
    and td: "SorobanTransactionData_fromXDR L (SorobanTransactionData_toXDR L d) = Inr d"
  shows "\<exists>j y. toJSON L x = (Inr j, x1) \<and> fromJSON L (options x) j = Inr y \<and>
           simulationData y = (Inr (r, d), y) \<and> built y = Some b \<and> built x1 = Some b"
proof -
  let ?j = "\<lparr> json_method = method (options x),
                 json_tx = map_option (Tx_toXDR L) (built x),
                 json_auth = map (SorobanAuthorizationEntry_toXDR L) (auth r),
                 json_retval = ScVal_toXDR L (retval r),
                 json_simulationTransactionData = SorobanTransactionData_toXDR L d \<rparr>"
  have 1: "toJSON L x = (Inr ?j, x1)" by (rule toJSON_eq[OF sd])
  have da: "decode_all (SorobanAuthorizationEntry_fromXDR L)
              (map (SorobanAuthorizationEntry_toXDR L) (auth r)) = Inr (auth r)"
    using au by (intro decode_all_roundtrip) simp
  obtain y where 2: "fromJSON L (options x) ?j = Inr y"
     and 3: "built y = Some b" and 4: "simulationResult y = Some r"
     and 5: "simulationTransactionData y = Some d"
    using pk b tx da rv td
    by (simp add: fromJSON_def new_AssembledTransaction_def)
  from 4 5 have 6: "simulationData y = (Inr (r, d), y)" by (rule simulationData_cached)
  have 7: "built x1 = Some b"
    using sd b by (auto simp: simulationData_def Let_def
        split: option.splits SimulateTransactionResponse.splits)
  from 1 2 3 6 7 show ?thesis by blast
qed

theorem toJSON_fromJSON_roundtrip_witness:
  "\<exists>j y. toJSON sample_lib (sample_call [entry_source, entry_bob] (Some sample_success))
            = (Inr j, (sample_call [entry_source, entry_bob] (Some sample_success))
                 \<lparr> simulationResult := Some \<lparr> auth = [entry_source, entry_bob], retval = scvU32 5 \<rparr>,
                   simulationTransactionData := Some sample_data \<rparr>)
     \<and> fromJSON sample_lib sample_options j = Inr y
     \<and> simulationData y =
          (Inr (\<lparr> auth = [entry_source, entry_bob], retval = scvU32 5 \<rparr>, sample_data), y)
     \<and> built y = Some (sample_tx [entry_source, entry_bob])"
proof -
  let ?x = "sample_call [entry_source, entry_bob] (Some sample_success)"
  let ?r = "\<lparr> auth = [entry_source, entry_bob], retval = scvU32 5 \<rparr>"
  have o: "options ?x = sample_options" by (simp add: sample_call_def)
  have b: "built ?x = Some (sample_tx [entry_source, entry_bob])"
    by (simp add: sample_call_def)
  have sd: "simulationData ?x =
      (Inr (?r, sample_data),
       ?x\<lparr> simulationResult := Some ?r, simulationTransactionData := Some sample_data \<rparr>)"
    by (simp add: simulationData_def sample_call_def sample_success_def Let_def)
  have pk: "\<not> falsy (publicKey (options ?x))"
    by (simp add: falsy_def sample_call_def sample_options_def)
  have tx: "TransactionBuilder_fromXDR sample_lib
              (Tx_toXDR sample_lib (sample_tx [entry_source, entry_bob]))
              (networkPassphrase (options ?x)) = Inr (sample_tx [entry_source, entry_bob])"
    by (simp add: sample_lib_def encode_with_def decode_with_def tx_table_def)
  have ne: "entry_source \<noteq> entry_bob"
    by (simp add: entry_source_def entry_bob_def)
  have au: "\<forall>a \<in> set (auth ?r).
      SorobanAuthorizationEntry_fromXDR sample_lib
        (SorobanAuthorizationEntry_toXDR sample_lib a) = Inr a"
    using ne by (simp add: sample_lib_def encode_with_def decode_with_def entry_table_def)
  have rv: "ScVal_fromXDR sample_lib (ScVal_toXDR sample_lib (retval ?r)) = Inr (retval ?r)"
    by (simp add: sample_lib_def encode_with_def decode_with_def scval_table_def)
  have td: "SorobanTransactionData_fromXDR sample_lib
              (SorobanTransactionData_toXDR sample_lib sample_data) = Inr sample_data"
    by (simp add: sample_lib_def encode_with_def decode_with_def data_table_def)
  from toJSON_fromJSON_roundtrip[OF b sd pk tx au rv td]
  show ?thesis unfolding o by blast
qed

section \<open>Who still has to sign\<close>

lemma Set_spread_fold:
  "set (fold (\<lambda>x acc. if x \<in> set acc then acc else acc @ [x]) xs acc) = set acc \<union> set xs
   \<and> (distinct acc \<longrightarrow> distinct (fold (\<lambda>x acc. if x \<in> set acc then acc else acc @ [x]) xs acc))"
  by (induction xs arbitrary: acc) auto

lemma set_Set_spread: "set (Set_spread xs) = set xs"
  using Set_spread_fold[of xs "[]"] by (simp add: Set_spread_def)

lemma distinct_Set_spread: "distinct (Set_spread xs)"
  using Set_spread_fold[of xs "[]"] by (simp add: Set_spread_def)

lemma needs_built:
  assumes "built this = Some b" and "operations b = ope # others"
  shows "needsNonInvokerSigningBy incl this =
     Inr (Set_spread
            (map (\<lambda>entry. Address_toString (address (credentials_address (credentials entry))))
               (filter (\<lambda>entry. isAddressCredentials (credentials entry) \<and>
                          (incl \<or> signature (credentials_address (credentials entry)) = scvVoid))
                  (op_auth ope))))"
  using assms by (simp add: needsNonInvokerSigningBy_def)

lemma set_signing_addresses:
  "set (map (\<lambda>entry. Address_toString (address (credentials_address (credentials entry))))
          (filter (\<lambda>entry. isAddressCredentials (credentials entry) \<and>
                     (incl \<or> signature (credentials_address (credentials entry)) = scvVoid))
             es)) =
   {Address_toString (address c) | c entry.
      entry \<in> set es \<and> credentials entry = sorobanCredentialsAddress c \<and>
      (incl \<or> signature c = scvVoid)}" (is "?L = ?R")
proof
  show "?L \<subseteq> ?R"
  proof
    fix a assume "a \<in> ?L"
    then obtain e where e: "e \<in> set es" "isAddressCredentials (credentials e)"
        "incl \<or> signature (credentials_address (credentials e)) = scvVoid"
        "a = Address_toString (address (credentials_address (credentials e)))"
      by auto
    from e(2) obtain c where c: "credentials e = sorobanCredentialsAddress c"
      by (cases "credentials e") (simp_all add: isAddressCredentials_def)
    with e show "a \<in> ?R" by auto
  qed
  show "?R \<subseteq> ?L"
  proof
    fix a assume "a \<in> ?R"
    then obtain c e where e: "e \<in> set es" "credentials e = sorobanCredentialsAddress c"
        "incl \<or> signature c = scvVoid" "a = Address_toString (address c)"
      by auto
    then have "isAddressCredentials (credentials e)"
        "incl \<or> signature (credentials_address (credentials e)) = scvVoid"
        "a = Address_toString (address (credentials_address (credentials e)))"
      by (simp_all add: isAddressCredentials_def)
    with e(1) show "a \<in> ?L" by (simp add: image_iff) blast
  qed
qed

lemma set_needs:
  assumes "built this = Some b" and "operations b = ope # others"
    and "needsNonInvokerSigningBy incl this = Inr ids"
  shows "set ids =
      {Address_toString (address c) | c entry.
         entry \<in> set (op_auth ope) \<and> credentials entry = sorobanCredentialsAddress c \<and>
         (incl \<or> signature c = scvVoid)}"
proof -
  from assms(3) have "ids = Set_spread
            (map (\<lambda>entry. Address_toString (address (credentials_address (credentials entry))))
               (filter (\<lambda>entry. isAddressCredentials (credentials entry) \<and>
                          (incl \<or> signature (credentials_address (credentials entry)) = scvVoid))
                  (op_auth ope)))"
    unfolding needs_built[OF assms(1,2)] by simp
  then show ?thesis
    by (simp only: set_Set_spread set_signing_addresses)
qed

text \<open>
  Claim C4, as amended. On a finalized call whose transaction has a first operation,
  \<open>needsNonInvokerSigningBy\<close> returns a list without duplicates whose elements are
  exactly the addresses of the operation's authorization entries that have address
  credentials and, unless \<open>includeAlreadySigned\<close> is set, a void signature. Entries
  with source-account credentials never contribute: when every entry has them the list
  is empty. Nothing else is left out; an entry that carries address credentials
  for the submitter's own address contributes that address. Without a built transaction
  the call fails with the plain error "Transaction has not yet been simulated" (the
  specification's NotYetBuilt). The list for \<open>includeAlreadySigned = True\<close> contains the
  list for \<open>False\<close>.
\<close>

theorem needsNonInvokerSigningBy_spec:
  assumes b: "built this = Some b" and o: "operations b = ope # others"
  shows "needsNonInvokerSigningBy incl (this\<lparr> built := None \<rparr>)
           = Inl (Error ''Transaction has not yet been simulated'')
       \<and> (\<exists>ids. needsNonInvokerSigningBy incl this = Inr ids \<and> distinct ids \<and>
             set ids =
               {Address_toString (address c) | c entry.
                  entry \<in> set (op_auth ope) \<and> credentials entry = sorobanCredentialsAddress c \<and>
                  (incl \<or> signature c = scvVoid)})
       \<and> (\<exists>unsigned all. needsNonInvokerSigningBy False this = Inr unsigned \<and>
             needsNonInvokerSigningBy True this = Inr all \<and> set unsigned \<subseteq> set all)
       \<and> ((\<forall>entry \<in> set (op_auth ope). credentials entry = sorobanCredentialsSourceAccount) \<longrightarrow>
             needsNonInvokerSigningBy incl this = Inr [])"
proof -
  have 0: "(\<forall>entry \<in> set (op_auth ope). credentials entry = sorobanCredentialsSourceAccount) \<longrightarrow>
             needsNonInvokerSigningBy incl this = Inr []"
  proof
    assume a: "\<forall>entry \<in> set (op_auth ope). credentials entry = sorobanCredentialsSourceAccount"
    have "filter (\<lambda>entry. isAddressCredentials (credentials entry) \<and>
                          (incl \<or> signature (credentials_address (credentials entry)) = scvVoid))
                  (op_auth ope) = []"
      using a by (auto simp: filter_empty_conv isAddressCredentials_def)
    then show "needsNonInvokerSigningBy incl this = Inr []"
      unfolding needs_built[OF b o] by (simp add: Set_spread_def)
  qed
  have 1: "needsNonInvokerSigningBy incl (this\<lparr> built := None \<rparr>)
           = Inl (Error ''Transaction has not yet been simulated'')"
    by (simp add: needsNonInvokerSigningBy_def)
  obtain ids where i: "needsNonInvokerSigningBy incl this = Inr ids"
    using needs_built[OF b o] by blast
  have d: "distinct ids"
    using i unfolding needs_built[OF b o] by (auto simp: distinct_Set_spread)
  note s = set_needs[OF b o i]
  obtain u where u: "needsNonInvokerSigningBy False this = Inr u"
    using needs_built[OF b o] by blast
  obtain a where a: "needsNonInvokerSigningBy True this = Inr a"
    using needs_built[OF b o] by blast
  have "set u \<subseteq> set a"
    unfolding set_needs[OF b o u] set_needs[OF b o a] by blast
  with 0 1 i d s u a show ?thesis by blast
qed

theorem needsNonInvokerSigningBy_spec_witness:
  "built (sample_call [entry_source, entry_bob, entry_carol, entry_bob] None)
      = Some (sample_tx [entry_source, entry_bob, entry_carol, entry_bob])
   \<and> needsNonInvokerSigningBy False (sample_call [entry_source, entry_bob, entry_carol, entry_bob] None)
      = Inr [''GBOB'']
   \<and> needsNonInvokerSigningBy True (sample_call [entry_source, entry_bob, entry_carol, entry_bob] None)
      = Inr [''GBOB'', ''GCAROL'']
   \<and> (\<exists>ids. needsNonInvokerSigningBy False
               (sample_call [entry_source, entry_bob, entry_carol, entry_bob] None) = Inr ids
          \<and> distinct ids
          \<and> set ids =
               {Address_toString (address c) | c entry.
                  entry \<in> set [entry_source, entry_bob, entry_carol, entry_bob] \<and>
                  credentials entry = sorobanCredentialsAddress c \<and>
                  (False \<or> signature c = scvVoid)})
   \<and> needsNonInvokerSigningBy True (sample_call [entry_source, entry_source] None) = Inr []"
proof -
  let ?es = "[entry_source, entry_bob, entry_carol, entry_bob]"
  let ?ss = "[entry_source, entry_source]"
  have b: "built (sample_call ?es None) = Some (sample_tx ?es)"
    by (simp add: sample_call_def)
  have o: "operations (sample_tx ?es) =
             InvokeHostFunction (hostFunctionTypeInvokeContract ''CSWAP'' ''swap'' []) ?es # []"
    by (simp add: sample_tx_def)
  have f: "needsNonInvokerSigningBy False (sample_call ?es None) = Inr [''GBOB'']"
    by (simp add: needsNonInvokerSigningBy_def sample_call_def sample_tx_def op_auth_def
        isAddressCredentials_def entry_source_def entry_bob_def entry_carol_def
        Set_spread_def Address_toString_def)
  have t: "needsNonInvokerSigningBy True (sample_call ?es None) = Inr [''GBOB'', ''GCAROL'']"
    by (simp add: needsNonInvokerSigningBy_def sample_call_def sample_tx_def op_auth_def
        isAddressCredentials_def entry_source_def entry_bob_def entry_carol_def
        Set_spread_def Address_toString_def)
  have b': "built (sample_call ?ss None) = Some (sample_tx ?ss)"
    by (simp add: sample_call_def)
  have o': "operations (sample_tx ?ss) =
             InvokeHostFunction (hostFunctionTypeInvokeContract ''CSWAP'' ''swap'' []) ?ss # []"
    by (simp add: sample_tx_def)
  have a: "\<forall>entry \<in> set (op_auth (InvokeHostFunction
               (hostFunctionTypeInvokeContract ''CSWAP'' ''swap'' []) ?ss)).
             credentials entry = sorobanCredentialsSourceAccount"
    by (simp add: op_auth_def entry_source_def)
  have e: "needsNonInvokerSigningBy True (sample_call ?ss None) = Inr []"
    using needsNonInvokerSigningBy_spec[OF b' o', of True,
        THEN conjunct2, THEN conjunct2, THEN conjunct2] a
    by blast
  have m: "\<exists>ids. needsNonInvokerSigningBy False (sample_call ?es None) = Inr ids
          \<and> distinct ids
          \<and> set ids =
               {Address_toString (address c) | c entry.
                  entry \<in> set ?es \<and>
                  credentials entry = sorobanCredentialsAddress c \<and>
                  (False \<or> signature c = scvVoid)}"
    using needsNonInvokerSigningBy_spec[OF b o, of False, THEN conjunct2, THEN conjunct1]
    by (simp add: op_auth_def)
  from b f t m e show ?thesis by blast
qed

text \<open>
  Claim C4 as it was stated fails on a call with an entry that carries address
  credentials for Alice, the submitter: her address is in the list.
\<close>

theorem needsNonInvokerSigningBy_counterexample:
  "publicKey (options (sample_call [entry_source, entry_alice, entry_bob] None)) = Some ''GALICE''
   \<and> built (sample_call [entry_source, entry_alice, entry_bob] None)
       = Some (sample_tx [entry_source, entry_alice, entry_bob])
   \<and> tx_source (sample_tx [entry_source, entry_alice, entry_bob]) = ''GALICE''
   \<and> needsNonInvokerSigningBy False (sample_call [entry_source, entry_alice, entry_bob] None)
       = Inr [''GALICE'', ''GBOB'']
   \<and> needsNonInvokerSigningBy True (sample_call [entry_source, entry_alice, entry_bob] None)
       = Inr [''GALICE'', ''GBOB'']"
  by (simp add: needsNonInvokerSigningBy_def sample_call_def sample_options_def sample_tx_def
      op_auth_def isAddressCredentials_def entry_source_def entry_alice_def entry_bob_def
      Set_spread_def Address_toString_def)

section \<open>Signing the envelope\<close>

lemma simulationData_frame:
  assumes "simulationData this = (r, this')"
  shows "built this' = built this \<and> options this' = options this \<and> signed this' = signed this
       \<and> raw this' = raw this \<and> simulation this' = simulation this"
  using assms
  by (auto simp: simulationData_def Let_def
      split: option.splits SimulateTransactionResponse.splits)

lemma needs_built_only:
  "built a = built b \<Longrightarrow> needsNonInvokerSigningBy i a = needsNonInvokerSigningBy i b"
  by (simp add: needsNonInvokerSigningBy_def)

lemma startsWith_C [simp]:
  "startsWith (Address_toString a) ''C'' \<longleftrightarrow> (\<exists>k. a = scAddressTypeContract k)"
  by (cases a) (simp_all add: startsWith_def Address_toString_def)

text \<open>The part of sign after the read-call check.\<close>

lemma sign_after_check:
  assumes b: "built this = Some b"
    and chk: "(if force then (Inr False, this) else isReadCall this) = (Inr False, this0)"
    and sd: "simulationData this0 = (Inr (r, d), this1)"
    and ids: "needsNonInvokerSigningBy False this = Inr ids"
  shows "sign L force arg this =
     (case envelopeSigner arg this of
        None \<Rightarrow> (Inl NoSigner, this0)
      | Some f \<Rightarrow>
          if nonContract ids \<noteq> [] then (Inl (NeedsMoreSignatures (nonContract ids)), this0)
          else
            (case f (Tx_toXDR L (refinalized L (options this) b d)) (networkPassphrase (options this)) of
               Inl e \<Rightarrow> (Inl e, this1\<lparr> built := Some (refinalized L (options this) b d) \<rparr>)
             | Inr sg \<Rightarrow>
                 (case TransactionBuilder_fromXDR L sg (networkPassphrase (options this)) of
                    Inl e \<Rightarrow> (Inl e, this1\<lparr> built := Some (refinalized L (options this) b d) \<rparr>)
                  | Inr s \<Rightarrow>
                      (Inr (), this1\<lparr> built := Some (refinalized L (options this) b d),
                                         signed := Some s \<rparr>))))"
proof -
  have f0: "built this0 = built this \<and> options this0 = options this"
  proof (cases force)
    case True with chk show ?thesis by simp
  next
    case False
    with chk have "isReadCall this = (Inr False, this0)" by simp
    then show ?thesis
      by (auto simp: isReadCall_def Let_def split: prod.splits sum.splits
          dest!: simulationData_frame)
  qed
  then have n0: "needsNonInvokerSigningBy False this0 = Inr ids"
    using ids needs_built_only[of this0 this False] by simp
  have f1: "options this1 = options this"
    using simulationData_frame[OF sd] f0 by simp
  show ?thesis
    unfolding sign_def envelopeSigner_def nonContract_def refinalized_def
    using b chk sd n0 f0 f1
    by (simp add: Let_def split: option.splits sum.splits)
qed


lemma simulationData_errors:
  "simulationData this = (Inl e, this') \<Longrightarrow> e = NotYetSimulated \<or> e = ExpiredState \<or> (\<exists>m. e = Error m)"
  by (auto simp: simulationData_def Let_def
      split: option.splits SimulateTransactionResponse.splits)

lemma isReadCall_errors:
  "isReadCall this = (Inl e, this') \<Longrightarrow> e = NotYetSimulated \<or> e = ExpiredState \<or> (\<exists>m. e = Error m)"
  by (auto simp: isReadCall_def Let_def split: prod.splits sum.splits
      dest: simulationData_errors)

lemma sign_no_signer:
  assumes "envelopeSigner arg this = None"
  shows "fst (sign L force arg this) \<noteq> Inl (NeedsMoreSignatures xs)"
proof (cases "isReadCall this")
  case (Pair res this0)
  show ?thesis
  proof (cases res)
    case (Inl e)
    with Pair isReadCall_errors[of this e this0] assms show ?thesis
      by (auto simp: sign_def envelopeSigner_def Let_def split: option.splits)
  next
    case (Inr v)
    with Pair assms show ?thesis
      by (cases v) (auto simp: sign_def envelopeSigner_def Let_def split: option.splits)
  qed
qed

lemma sample_simulationData:
  "simulationData (sample_call es (Some sample_success)) =
     (Inr (\<lparr> auth = [entry_source, entry_bob], retval = scvU32 5 \<rparr>, sample_data),
      (sample_call es (Some sample_success))
        \<lparr> simulationResult := Some \<lparr> auth = [entry_source, entry_bob], retval = scvU32 5 \<rparr>,
          simulationTransactionData := Some sample_data \<rparr>)"
  by (simp add: simulationData_def sample_call_def sample_success_def Let_def)

lemma sample_needs:
  "needsNonInvokerSigningBy False (sample_call [entry_source, entry_carol, entry_token] sim)
     = Inr [''CTOKEN'']"
  "needsNonInvokerSigningBy False (sample_call [entry_source, entry_bob] sim) = Inr [''GBOB'']"
  "needsNonInvokerSigningBy False (sample_call [entry_bob, entry_token] sim)
     = Inr [''GBOB'', ''CTOKEN'']"
  by (simp_all add: needsNonInvokerSigningBy_def sample_call_def sample_tx_def op_auth_def
        isAddressCredentials_def entry_source_def entry_bob_def entry_carol_def entry_token_def
        Set_spread_def Address_toString_def)

text \<open>
  Claim C5, as amended. On a finalized and successfully simulated call, \<open>sign\<close> fails with
  \<open>NoSignatureNeeded\<close> when the call is a read call and \<open>force\<close> is not set. Otherwise it
  fails with \<open>NoSigner\<close> when no wallet callback is available; otherwise, with a callback,
  it fails with \<open>NeedsMoreSignatures\<close> when the list of identities that still have to sign,
  contract addresses left out, is not empty; and when that list is empty it finalizes the
  transaction again, calls the wallet and stores the decoded answer as the signed
  envelope. The identities in that list are exactly the account addresses of the
  operation's address-credentialed entries whose signature is void, the submitter's own
  address among them when an entry carries address credentials for it.
\<close>

theorem sign_spec:
  assumes b: "built this = Some b"
    and sd: "simulationData this = (Inr (r, d), this1)"
    and ids: "needsNonInvokerSigningBy False this = Inr ids"
  shows "(\<not> force \<and> auth r = [] \<and> readWrite (footprint (resources d)) = [] \<longrightarrow>
            sign L force arg this = (Inl NoSignatureNeeded, this1))
       \<and> ((force \<or> auth r \<noteq> [] \<or> readWrite (footprint (resources d)) \<noteq> []) \<longrightarrow>
            (envelopeSigner arg this = None \<longrightarrow> fst (sign L force arg this) = Inl NoSigner)
          \<and> (envelopeSigner arg this \<noteq> None \<and> nonContract ids \<noteq> [] \<longrightarrow>
                fst (sign L force arg this) = Inl (NeedsMoreSignatures (nonContract ids)))
          \<and> (\<forall>f. envelopeSigner arg this = Some f \<and> nonContract ids = [] \<longrightarrow>
                sign L force arg this =
                  (case f (Tx_toXDR L (refinalized L (options this) b d))
                          (networkPassphrase (options this)) of
                     Inl e \<Rightarrow> (Inl e, this1\<lparr> built := Some (refinalized L (options this) b d) \<rparr>)
                   | Inr sg \<Rightarrow>
                       (case TransactionBuilder_fromXDR L sg (networkPassphrase (options this)) of
                          Inl e \<Rightarrow>
                            (Inl e, this1\<lparr> built := Some (refinalized L (options this) b d) \<rparr>)
                        | Inr s \<Rightarrow>
                            (Inr (), this1\<lparr> built := Some (refinalized L (options this) b d),
                                               signed := Some s \<rparr>)))))
       \<and> (\<forall>ope others. operations b = ope # others \<longrightarrow>
            set (nonContract ids) =
              {Address_toString (address c) | c entry.
                 entry \<in> set (op_auth ope) \<and> credentials entry = sorobanCredentialsAddress c \<and>
                 signature c = scvVoid \<and> (\<exists>k. address c = scAddressTypeAccount k)})"
proof -
  let ?rc = "auth r = [] \<and> readWrite (footprint (resources d)) = []"
  note rc = isReadCall_eq[OF sd]
  note idem = simulationData_idem[OF sd]
  have 1: "\<not> force \<and> ?rc \<longrightarrow> sign L force arg this = (Inl NoSignatureNeeded, this1)"
    using b rc by (auto simp: sign_def Let_def)
  have 2: "(force \<or> \<not> ?rc) \<longrightarrow>
     sign L force arg this =
     (case envelopeSigner arg this of
        None \<Rightarrow> (Inl NoSigner, if force then this else this1)
      | Some f \<Rightarrow>
          if nonContract ids \<noteq> []
          then (Inl (NeedsMoreSignatures (nonContract ids)), if force then this else this1)
          else
            (case f (Tx_toXDR L (refinalized L (options this) b d)) (networkPassphrase (options this)) of
               Inl e \<Rightarrow> (Inl e, this1\<lparr> built := Some (refinalized L (options this) b d) \<rparr>)
             | Inr sg \<Rightarrow>
                 (case TransactionBuilder_fromXDR L sg (networkPassphrase (options this)) of
                    Inl e \<Rightarrow> (Inl e, this1\<lparr> built := Some (refinalized L (options this) b d) \<rparr>)
                  | Inr s \<Rightarrow>
                      (Inr (), this1\<lparr> built := Some (refinalized L (options this) b d),
                                         signed := Some s \<rparr>))))"
  proof (cases force)
    case True
    have chk: "(if force then (Inr False, this) else isReadCall this) = (Inr False, this)"
      using True by simp
    show ?thesis using sign_after_check[OF b chk sd ids, of L arg] True by simp
  next
    case False
    show ?thesis
    proof
      assume "force \<or> \<not> ?rc"
      with False have nrc: "\<not> ?rc" by simp
      have chk: "(if force then (Inr False, this) else isReadCall this) = (Inr False, this1)"
        using False rc nrc by auto
      show "sign L force arg this =
     (case envelopeSigner arg this of
        None \<Rightarrow> (Inl NoSigner, if force then this else this1)
      | Some f \<Rightarrow>
          if nonContract ids \<noteq> []
          then (Inl (NeedsMoreSignatures (nonContract ids)), if force then this else this1)
          else
            (case f (Tx_toXDR L (refinalized L (options this) b d)) (networkPassphrase (options this)) of
               Inl e \<Rightarrow> (Inl e, this1\<lparr> built := Some (refinalized L (options this) b d) \<rparr>)
             | Inr sg \<Rightarrow>
                 (case TransactionBuilder_fromXDR L sg (networkPassphrase (options this)) of
                    Inl e \<Rightarrow> (Inl e, this1\<lparr> built := Some (refinalized L (options this) b d) \<rparr>)
                  | Inr s \<Rightarrow>
                      (Inr (), this1\<lparr> built := Some (refinalized L (options this) b d),
                                         signed := Some s \<rparr>))))"
        using sign_after_check[OF b chk idem ids, of L arg] False by simp
    qed
  qed
  have 3: "\<forall>ope others. operations b = ope # others \<longrightarrow>
            set (nonContract ids) =
              {Address_toString (address c) | c entry.
                 entry \<in> set (op_auth ope) \<and> credentials entry = sorobanCredentialsAddress c \<and>
                 signature c = scvVoid \<and> (\<exists>k. address c = scAddressTypeAccount k)}"
  proof (intro allI impI)
    fix ope others assume o: "operations b = ope # others"
    have "\<And>a. (\<forall>k. a \<noteq> scAddressTypeContract k) \<longleftrightarrow> (\<exists>k. a = scAddressTypeAccount k)"
      by (case_tac a) auto
    then show "set (nonContract ids) =
              {Address_toString (address c) | c entry.
                 entry \<in> set (op_auth ope) \<and> credentials entry = sorobanCredentialsAddress c \<and>
                 signature c = scvVoid \<and> (\<exists>k. address c = scAddressTypeAccount k)}"
      unfolding nonContract_def set_filter set_needs[OF b o ids]
      by auto metis
  qed
  from 1 2 3 show ?thesis
    by (auto split: option.splits)
qed


theorem sign_spec_witness:
  "needsNonInvokerSigningBy False
     (sample_call [entry_source, entry_carol, entry_token] (Some sample_success)) = Inr [''CTOKEN'']
   \<and> nonContract [''CTOKEN''] = []
   \<and> sign (signing_lib sample_signed) False None
        (sample_call [entry_source, entry_carol, entry_token] (Some sample_success))
      = (Inr (),
         (sample_call [entry_source, entry_carol, entry_token] (Some sample_success))
           \<lparr> simulationResult := Some \<lparr> auth = [entry_source, entry_bob], retval = scvU32 5 \<rparr>,
             simulationTransactionData := Some sample_data,
             built := Some (refinalized (signing_lib sample_signed) sample_options
                              (sample_tx [entry_source, entry_carol, entry_token]) sample_data),
             signed := Some sample_signed \<rparr>)
   \<and> fst (sign (signing_lib sample_signed) False None
        (sample_call [entry_source, entry_bob] (Some sample_success)))
      = Inl (NeedsMoreSignatures [''GBOB''])"
proof -
  let ?L = "signing_lib sample_signed"
  let ?es = "[entry_source, entry_carol, entry_token]"
  let ?x = "sample_call ?es (Some sample_success)"
  let ?y = "sample_call [entry_source, entry_bob] (Some sample_success)"
  have b: "built ?x = Some (sample_tx ?es)" by (simp add: sample_call_def)
  have o: "options ?x = sample_options" by (simp add: sample_call_def)
  have nc: "nonContract [''CTOKEN''] = []"
    by (simp add: nonContract_def startsWith_def)
  have es: "envelopeSigner None ?x = Some sample_wallet"
    by (simp add: envelopeSigner_def sample_call_def sample_options_def)
  have x: "Tx_toXDR ?L (refinalized ?L sample_options (sample_tx ?es) sample_data) = ''GALICE/600''"
    by (simp add: signing_lib_def sample_lib_def refinalized_def sample_build_def
        sample_cloneFrom_def sample_tx_def)
  have d: "TransactionBuilder_fromXDR ?L ''GALICE/600+alice'' (networkPassphrase sample_options)
             = Inr sample_signed"
    by (simp add: signing_lib_def)
  have 1: "sign ?L False None ?x = (Inr (),
         ?x\<lparr> simulationResult := Some \<lparr> auth = [entry_source, entry_bob], retval = scvU32 5 \<rparr>,
             simulationTransactionData := Some sample_data,
             built := Some (refinalized ?L sample_options (sample_tx ?es) sample_data),
             signed := Some sample_signed \<rparr>)"
    using sign_spec[OF b sample_simulationData sample_needs(1), of False ?L None] nc es
    by (simp add: o x d sample_wallet_def)
  have b2: "built ?y = Some (sample_tx [entry_source, entry_bob])" by (simp add: sample_call_def)
  have nc2: "nonContract [''GBOB''] = [''GBOB'']"
    by (simp add: nonContract_def startsWith_def)
  have es2: "envelopeSigner None ?y = Some sample_wallet"
    by (simp add: envelopeSigner_def sample_call_def sample_options_def)
  have 2: "fst (sign ?L False None ?y) = Inl (NeedsMoreSignatures [''GBOB''])"
    using sign_spec[OF b2 sample_simulationData sample_needs(2), of False ?L None] nc2 es2
    by simp
  from 1 2 nc sample_needs(1) show ?thesis by simp
qed

text \<open>
  Claim C5 as it was stated fails twice. Where Bob has not signed and no wallet callback
  is available, the call fails with \<open>NoSigner\<close>, not with \<open>NeedsMoreSignatures\<close>. And
  where a wallet is available and the only unsigned entry with address credentials is
  one for Alice, the submitter, so that no other party has anything left to sign, the
  call fails with \<open>NeedsMoreSignatures\<close> all the same, naming Alice.
\<close>

theorem sign_NeedsMoreSignatures_counterexample:
  "needsNonInvokerSigningBy False
     (no_wallet (sample_call [entry_source, entry_bob] (Some sample_success))) = Inr [''GBOB'']
   \<and> nonContract [''GBOB''] = [''GBOB'']
   \<and> fst (sign sample_lib False None
        (no_wallet (sample_call [entry_source, entry_bob] (Some sample_success)))) = Inl NoSigner
   \<and> fst (sign sample_lib False None
        (no_wallet (sample_call [entry_source, entry_bob] (Some sample_success))))
      \<noteq> Inl (NeedsMoreSignatures [''GBOB''])
   \<and> publicKey (options (sample_call [entry_source, entry_alice, entry_carol]
                            (Some sample_success))) = Some ''GALICE''
   \<and> tx_source (sample_tx [entry_source, entry_alice, entry_carol]) = ''GALICE''
   \<and> envelopeSigner None (sample_call [entry_source, entry_alice, entry_carol]
                             (Some sample_success)) = Some sample_wallet
   \<and> fst (sign sample_lib False None
        (sample_call [entry_source, entry_alice, entry_carol] (Some sample_success)))
      = Inl (NeedsMoreSignatures [''GALICE''])"
proof -
  let ?x = "no_wallet (sample_call [entry_source, entry_bob] (Some sample_success))"
  let ?y = "sample_call [entry_source, entry_alice, entry_carol] (Some sample_success)"
  have n: "needsNonInvokerSigningBy False ?x = Inr [''GBOB'']"
    using sample_needs(2)[of "Some sample_success"]
      needs_built_only[of ?x "sample_call [entry_source, entry_bob] (Some sample_success)" False]
    by (simp add: no_wallet_def)
  have nc2: "nonContract [''GBOB''] = [''GBOB'']"
    by (simp add: nonContract_def startsWith_def)
  have s: "fst (sign sample_lib False None ?x) = Inl NoSigner"
    by (simp add: sign_def isReadCall_def simulationData_def no_wallet_def sample_call_def
        sample_success_def sample_options_def Let_def)
  have p: "publicKey (options ?y) = Some ''GALICE''"
    by (simp add: sample_call_def sample_options_def)
  have t: "tx_source (sample_tx [entry_source, entry_alice, entry_carol]) = ''GALICE''"
    by (simp add: sample_tx_def)
  have e: "envelopeSigner None ?y = Some sample_wallet"
    by (simp add: envelopeSigner_def sample_call_def sample_options_def)
  have m: "fst (sign sample_lib False None ?y) = Inl (NeedsMoreSignatures [''GALICE''])"
    by (simp add: sign_def isReadCall_def simulationData_def needsNonInvokerSigningBy_def
        sample_call_def sample_success_def sample_options_def sample_tx_def op_auth_def
        isAddressCredentials_def entry_source_def entry_alice_def entry_carol_def
        Set_spread_def Address_toString_def startsWith_def Let_def)
  from n nc2 s p t e m show ?thesis by simp
qed

text \<open>
  Claim C10. On a finalized call that is not a read call, or with \<open>force\<close> set, and with
  no wallet callback available, \<open>sign\<close> fails with \<open>NoSigner\<close> whoever still has to sign
  authorization entries; and no call of \<open>sign\<close> fails with \<open>NeedsMoreSignatures\<close> unless
  a wallet callback is available.
\<close>

theorem sign_NoSigner_first:
  assumes b: "built this = Some b"
    and chk: "force \<or> fst (isReadCall this) = Inr False"
    and ns: "envelopeSigner arg this = None"
  shows "fst (sign L force arg this) = Inl NoSigner
       \<and> (\<forall>L' force' arg' that xs.
             fst (sign L' force' arg' that) = Inl (NeedsMoreSignatures xs) \<longrightarrow>
             envelopeSigner arg' that \<noteq> None)"
proof -
  have 1: "fst (sign L force arg this) = Inl NoSigner"
  proof (cases force)
    case True
    with b ns show ?thesis by (simp add: sign_def envelopeSigner_def Let_def)
  next
    case False
    with chk obtain this0 where "isReadCall this = (Inr False, this0)"
      by (cases "isReadCall this") auto
    with False b ns show ?thesis by (simp add: sign_def envelopeSigner_def Let_def)
  qed
  have 2: "\<forall>L' force' arg' that xs.
             fst (sign L' force' arg' that) = Inl (NeedsMoreSignatures xs) \<longrightarrow>
             envelopeSigner arg' that \<noteq> None"
    using sign_no_signer by blast
  from 1 2 show ?thesis by simp
qed

theorem sign_NoSigner_first_witness:
  "needsNonInvokerSigningBy False
     (no_wallet (sample_call [entry_bob, entry_token] (Some sample_success)))
     = Inr [''GBOB'', ''CTOKEN'']
   \<and> fst (isReadCall (no_wallet (sample_call [entry_bob, entry_token] (Some sample_success))))
     = Inr False
   \<and> fst (sign sample_lib False None
        (no_wallet (sample_call [entry_bob, entry_token] (Some sample_success)))) = Inl NoSigner
   \<and> fst (sign sample_lib True None
        (no_wallet (sample_call [entry_bob, entry_token] None))) = Inl NoSigner"
proof -
  let ?x = "no_wallet (sample_call [entry_bob, entry_token] (Some sample_success))"
  let ?z = "no_wallet (sample_call [entry_bob, entry_token] None)"
  have n: "needsNonInvokerSigningBy False ?x = Inr [''GBOB'', ''CTOKEN'']"
    using sample_needs(3)[of "Some sample_success"]
      needs_built_only[of ?x "sample_call [entry_bob, entry_token] (Some sample_success)" False]
    by (simp add: no_wallet_def)
  have b: "built ?x = Some (sample_tx [entry_bob, entry_token])"
    by (simp add: no_wallet_def sample_call_def)
  have bz: "built ?z = Some (sample_tx [entry_bob, entry_token])"
    by (simp add: no_wallet_def sample_call_def)
  have rc: "fst (isReadCall ?x) = Inr False"
    by (simp add: isReadCall_def simulationData_def no_wallet_def sample_call_def
        sample_success_def Let_def)
  have ns: "envelopeSigner None ?x = None" "envelopeSigner None ?z = None"
    by (simp_all add: envelopeSigner_def no_wallet_def sample_call_def sample_options_def)
  have c1: "False \<or> fst (isReadCall ?x) = Inr False" using rc by simp
  have c2: "True \<or> fst (isReadCall ?z) = Inr False" by simp
  from sign_NoSigner_first[OF b c1 ns(1), of sample_lib]
       sign_NoSigner_first[OF bz c2 ns(2), of sample_lib] n rc
  show ?thesis by simp
qed

section \<open>Signing authorization entries\<close>

lemma loop_length:
  "signAuthEntries_loop authz addr es = (r, es') \<Longrightarrow> length es' = length es"
  by (induction es arbitrary: r es')
     (auto simp: Let_def split: SorobanCredentials.splits if_splits prod.splits sum.splits)

lemma loop_frame:
  "signAuthEntries_loop authz addr es = (r, es') \<Longrightarrow> i < length es \<Longrightarrow>
   \<not> targetsAddress addr (es ! i) \<Longrightarrow> es' ! i = es ! i"
proof (induction es arbitrary: r es' i)
  case Nil
  then show ?case by simp
next
  case (Cons e es)
  show ?case
  proof (cases i)
    case 0
    with Cons.prems show ?thesis
      by (auto simp: Let_def targetsAddress_def
          split: SorobanCredentials.splits if_splits prod.splits sum.splits)
  next
    case (Suc j)
    with Cons.prems Cons.IH[of _ _ j] show ?thesis
      by (auto simp: Let_def split: SorobanCredentials.splits if_splits prod.splits sum.splits)
  qed
qed

lemma loop_total:
  "\<forall>e a. \<exists>e'. authz e a = Inr e' \<Longrightarrow> fst (signAuthEntries_loop authz addr es) = None"
proof (induction es)
  case Nil
  then show ?case by simp
next
  case (Cons e es)
  show ?case
  proof (cases "credentials e")
    case sorobanCredentialsSourceAccount
    with Cons show ?thesis by (auto split: prod.splits)
  next
    case (sorobanCredentialsAddress c)
    from Cons.prems obtain e' where "authz e (Address_toString (address c)) = Inr e'" by blast
    with Cons sorobanCredentialsAddress show ?thesis
      by (auto simp: Let_def split: prod.splits)
  qed
qed


lemma needs_Inr_ops:
  "built this = Some b \<Longrightarrow> needsNonInvokerSigningBy i this = Inr ids \<Longrightarrow> operations b \<noteq> []"
  by (auto simp: needsNonInvokerSigningBy_def split: list.splits)

lemma sample_sign_bob:
  "signAuthEntries sample_lib (sample_rpc script outcome) (Some 1100) (Some bob_signer) (Some ''GBOB'') None
     (sample_call [entry_source, entry_bob, entry_carol, entry_token] None) world0
   = (Inr (),
      (sample_call [entry_source, entry_bob, entry_carol, entry_token] None)
        \<lparr> built := Some ((sample_tx [entry_source, entry_bob, entry_carol, entry_token])
            \<lparr> operations := [InvokeHostFunction (hostFunctionTypeInvokeContract ''CSWAP'' ''swap'' [])
                 [entry_source, entry_bob_signed, entry_carol, entry_token]] \<rparr>) \<rparr>,
      world0)"
  by (simp add: signAuthEntries_def needsNonInvokerSigningBy_def sample_call_def sample_tx_def
      op_auth_def isAddressCredentials_def entry_source_def entry_bob_def entry_carol_def
      entry_token_def entry_bob_signed_def Set_spread_def Address_toString_def Let_def
      sample_lib_def sample_authorizeEntry_def bob_signer_def sample_options_def)

text \<open>
  Claim C7. Whatever \<open>signAuthEntries\<close> returns or fails with on a finalized call, the
  object it leaves differs from the one before at most in the authorization entries of the
  first operation: there are as many as before, and every entry that does not have address
  credentials with the signing address is the same as before. The signing address is the
  one passed to the call, or else the public key of the options.
\<close>

theorem signAuthEntries_frame:
  assumes b: "built this = Some b" and o: "operations b = ope # others"
    and run: "signAuthEntries L R expiration_arg signAuthEntry_arg address_arg authorizeEntry_arg
                this w = (res, this', w')"
  shows "\<exists>ope'. this' = this\<lparr> built := Some (b\<lparr> operations := ope' # others \<rparr>) \<rparr>
          \<and> length (op_auth ope') = length (op_auth ope)
          \<and> (\<forall>i < length (op_auth ope).
                \<not> targetsAddress (signingAddress address_arg this) (op_auth ope ! i) \<longrightarrow>
                op_auth ope' ! i = op_auth ope ! i)"
proof -
  have same: "this = this\<lparr> built := Some (b\<lparr> operations := ope # others \<rparr>) \<rparr>"
    using b o by simp
  show ?thesis
  proof (cases "this' = this")
    case True
    with same show ?thesis by (intro exI[of _ ope]) simp
  next
    case False
    with run b o obtain f es r es' authz where
        ope: "ope = InvokeHostFunction f es"
        and loop: "signAuthEntries_loop authz (signingAddress address_arg this) es = (r, es')"
        and t: "this' = this\<lparr> built := Some (b\<lparr> operations := InvokeHostFunction f es' # others \<rparr>) \<rparr>"
      unfolding signAuthEntries_def signingAddress_def
      by (auto simp: Let_def split: option.splits sum.splits prod.splits list.splits
          Operation.splits if_splits)
    from loop_length[OF loop] loop_frame[OF loop] ope t
    show ?thesis by (intro exI[of _ "InvokeHostFunction f es'"]) (simp add: op_auth_def)
  qed
qed


theorem signAuthEntries_frame_witness:
  "signAuthEntries sample_lib (sample_rpc [] None) (Some 1100) (Some bob_signer) (Some ''GBOB'') None
     (sample_call [entry_source, entry_bob, entry_carol, entry_token] None) world0
   = (Inr (),
      (sample_call [entry_source, entry_bob, entry_carol, entry_token] None)
        \<lparr> built := Some ((sample_tx [entry_source, entry_bob, entry_carol, entry_token])
            \<lparr> operations := [InvokeHostFunction (hostFunctionTypeInvokeContract ''CSWAP'' ''swap'' [])
                 [entry_source, entry_bob_signed, entry_carol, entry_token]] \<rparr>) \<rparr>,
      world0)
   \<and> \<not> targetsAddress (Some ''GBOB'') entry_source
   \<and> targetsAddress (Some ''GBOB'') entry_bob
   \<and> \<not> targetsAddress (Some ''GBOB'') entry_carol
   \<and> \<not> targetsAddress (Some ''GBOB'') entry_token
   \<and> (\<exists>ope'.
         (sample_call [entry_source, entry_bob, entry_carol, entry_token] None)
           \<lparr> built := Some ((sample_tx [entry_source, entry_bob, entry_carol, entry_token])
               \<lparr> operations := [InvokeHostFunction (hostFunctionTypeInvokeContract ''CSWAP'' ''swap'' [])
                    [entry_source, entry_bob_signed, entry_carol, entry_token]] \<rparr>) \<rparr>
         = (sample_call [entry_source, entry_bob, entry_carol, entry_token] None)
           \<lparr> built := Some ((sample_tx [entry_source, entry_bob, entry_carol, entry_token])
               \<lparr> operations := [ope'] \<rparr>) \<rparr>
         \<and> length (op_auth ope') = 4
         \<and> op_auth ope' ! 0 = entry_source \<and> op_auth ope' ! 2 = entry_carol
         \<and> op_auth ope' ! 3 = entry_token)"
proof -
  let ?es = "[entry_source, entry_bob, entry_carol, entry_token]"
  let ?x = "sample_call ?es None"
  let ?f = "hostFunctionTypeInvokeContract ''CSWAP'' ''swap'' []"
  have b: "built ?x = Some (sample_tx ?es)" by (simp add: sample_call_def)
  have o: "operations (sample_tx ?es) = InvokeHostFunction ?f ?es # []"
    by (simp add: sample_tx_def)
  have t: "\<not> targetsAddress (Some ''GBOB'') entry_source"
          "targetsAddress (Some ''GBOB'') entry_bob"
          "\<not> targetsAddress (Some ''GBOB'') entry_carol"
          "\<not> targetsAddress (Some ''GBOB'') entry_token"
    by (simp_all add: targetsAddress_def entry_source_def entry_bob_def entry_carol_def
        entry_token_def Address_toString_def)
  have a: "signingAddress (Some ''GBOB'') ?x = Some ''GBOB''" by (simp add: signingAddress_def)
  from signAuthEntries_frame[OF b o sample_sign_bob[of "[]" None]]
  obtain ope' where
    1: "?x\<lparr> built := Some ((sample_tx ?es)\<lparr> operations :=
             [InvokeHostFunction ?f [entry_source, entry_bob_signed, entry_carol, entry_token]] \<rparr>) \<rparr>
        = ?x\<lparr> built := Some ((sample_tx ?es)\<lparr> operations := [ope'] \<rparr>) \<rparr>"
    and 2: "length (op_auth ope') = length (op_auth (InvokeHostFunction ?f ?es))"
    and 3: "\<forall>i < length (op_auth (InvokeHostFunction ?f ?es)).
                \<not> targetsAddress (signingAddress (Some ''GBOB'') ?x)
                     (op_auth (InvokeHostFunction ?f ?es) ! i) \<longrightarrow>
                op_auth ope' ! i = op_auth (InvokeHostFunction ?f ?es) ! i"
    by blast
  have l: "length (op_auth ope') = 4" using 2 by (simp add: op_auth_def)
  have i0: "op_auth ope' ! 0 = entry_source"
    using 3[rule_format, of 0] t a by (simp add: op_auth_def)
  have i2: "op_auth ope' ! 2 = entry_carol"
    using 3[rule_format, of 2] t a by (simp add: op_auth_def)
  have i3: "op_auth ope' ! 3 = entry_token"
    using 3[rule_format, of 3] t a by (simp add: op_auth_def)
  from sample_sign_bob[of "[]" None] t 1 l i0 i2 i3 show ?thesis by blast
qed

lemma signAuthEntries_default_checks:
  assumes b: "built this = Some b" and n: "needsNonInvokerSigningBy False this = Inr needs"
    and bad: "needs = [] \<or> (case signingAddress address_arg this of None \<Rightarrow> [] | Some a \<Rightarrow> a) \<notin> set needs
              \<or> entrySigner signAuthEntry_arg this = None"
  shows "fst (signAuthEntries L R expiration_arg signAuthEntry_arg address_arg None this w) =
     Inl (if needs = [] then NoUnsignedNonInvokerAuthEntries
          else if (case signingAddress address_arg this of None \<Rightarrow> [] | Some a \<Rightarrow> a) \<notin> set needs
          then NoSignatureNeeded else NoSigner)"
  using b n bad
  unfolding signAuthEntries_def signingAddress_def entrySigner_def
  by (auto simp: Let_def split: option.splits sum.splits prod.splits)

lemma signAuthEntries_default_expiration:
  assumes "getLatestLedger R w = (Inr sq, w1)"
  shows "signAuthEntries L R None sa aa az this w =
         signAuthEntries L R (Some (sq + 100)) sa aa az this w1"
  using assms unfolding signAuthEntries_def by simp

lemma signAuthEntries_custom:
  assumes b: "built this = Some b" and o: "operations b \<noteq> []"
    and c: "\<forall>entry signer. \<exists>entry'. custom entry signer n (networkPassphrase (options this)) = Inr entry'"
  shows "fst (signAuthEntries L R (Some n) sa aa (Some custom) this w) = Inr ()"
proof -
  from o obtain ope others where ops: "operations b = ope # others"
    by (cases "operations b") auto
  show ?thesis
  proof (cases ope)
    case (InvokeHostFunction f es)
    let ?authz = "\<lambda>entry a. custom entry
          (\<lambda>preimage. (case (case sa of None \<Rightarrow> signAuthEntry (options this) | Some f \<Rightarrow> Some f) of
                 Some f \<Rightarrow> f
               | None \<Rightarrow> (\<lambda>preimage a. Inl (TypeError ''PromiseResolve called on non-object'')))
              preimage a) n (networkPassphrase (options this))"
    have "\<forall>e a. \<exists>e'. ?authz e a = Inr e'" using c by blast
    from loop_total[OF this]
    have "fst (signAuthEntries_loop ?authz
                 (case aa of None \<Rightarrow> publicKey (options this) | Some a \<Rightarrow> Some a) es) = None" .
    then show ?thesis
      using b ops InvokeHostFunction unfolding signAuthEntries_def
      by (auto simp: Let_def split: prod.splits option.splits)
  next
    case RestoreFootprint
    with b ops show ?thesis unfolding signAuthEntries_def by (simp add: Let_def)
  next
    case (OtherOperation x)
    with b ops show ?thesis unfolding signAuthEntries_def by (simp add: Let_def)
  qed
qed

lemma sample_needs2:
  "needsNonInvokerSigningBy False (sample_call [entry_source, entry_carol] sim) = Inr []"
  by (simp_all add: needsNonInvokerSigningBy_def sample_call_def sample_tx_def op_auth_def
        isAddressCredentials_def entry_source_def entry_bob_def entry_carol_def entry_token_def
        Set_spread_def Address_toString_def)

text \<open>
  Claim C8. With the library's own \<open>authorizeEntry\<close>, \<open>signAuthEntries\<close> on a finalized
  call fails with \<open>NoUnsignedNonInvokerAuthEntries\<close> when \<open>needsNonInvokerSigningBy\<close> gives
  the empty list, else with \<open>NoSignatureNeeded\<close> when the signing address is not in that
  list, else with \<open>NoSigner\<close> when no entry-signing callback is available. Without an
  expiration argument the call asks the server once for the latest ledger, when it starts,
  and behaves as the call with that ledger's sequence number plus 100 as the expiration.
  With a custom \<open>authorizeEntry\<close> none of the three checks is made: if it authorizes every
  entry, the call succeeds whatever the list, the address and the callback are.
\<close>

theorem signAuthEntries_checks:
  assumes b: "built this = Some b" and n: "needsNonInvokerSigningBy False this = Inr needs"
  shows "(needs = [] \<longrightarrow>
            fst (signAuthEntries L R expiration_arg signAuthEntry_arg address_arg None this w)
              = Inl NoUnsignedNonInvokerAuthEntries)
       \<and> (needs \<noteq> [] \<and>
          (case signingAddress address_arg this of None \<Rightarrow> [] | Some a \<Rightarrow> a) \<notin> set needs \<longrightarrow>
            fst (signAuthEntries L R expiration_arg signAuthEntry_arg address_arg None this w)
              = Inl NoSignatureNeeded)
       \<and> (needs \<noteq> [] \<and>
          (case signingAddress address_arg this of None \<Rightarrow> [] | Some a \<Rightarrow> a) \<in> set needs \<and>
          entrySigner signAuthEntry_arg this = None \<longrightarrow>
            fst (signAuthEntries L R expiration_arg signAuthEntry_arg address_arg None this w)
              = Inl NoSigner)
       \<and> (\<forall>sq w1. getLatestLedger R w = (Inr sq, w1) \<longrightarrow>
            signAuthEntries L R None signAuthEntry_arg address_arg authorizeEntry_arg this w =
            signAuthEntries L R (Some (sq + 100)) signAuthEntry_arg address_arg authorizeEntry_arg
              this w1)
       \<and> (\<forall>custom ledger.
            (\<forall>entry signer. \<exists>entry'.
               custom entry signer ledger (networkPassphrase (options this)) = Inr entry') \<longrightarrow>
            fst (signAuthEntries L R (Some ledger) signAuthEntry_arg address_arg (Some custom) this w)
              = Inr ())"
proof -
  note d = signAuthEntries_default_checks[OF b n, of address_arg signAuthEntry_arg L R expiration_arg w]
  have 1: "needs = [] \<longrightarrow>
            fst (signAuthEntries L R expiration_arg signAuthEntry_arg address_arg None this w)
              = Inl NoUnsignedNonInvokerAuthEntries"
    using d by simp
  have 2: "needs \<noteq> [] \<and>
          (case signingAddress address_arg this of None \<Rightarrow> [] | Some a \<Rightarrow> a) \<notin> set needs \<longrightarrow>
            fst (signAuthEntries L R expiration_arg signAuthEntry_arg address_arg None this w)
              = Inl NoSignatureNeeded"
    using d by simp
  have 3: "needs \<noteq> [] \<and>
          (case signingAddress address_arg this of None \<Rightarrow> [] | Some a \<Rightarrow> a) \<in> set needs \<and>
          entrySigner signAuthEntry_arg this = None \<longrightarrow>
            fst (signAuthEntries L R expiration_arg signAuthEntry_arg address_arg None this w)
              = Inl NoSigner"
    using d by simp
  have 4: "\<forall>sq w1. getLatestLedger R w = (Inr sq, w1) \<longrightarrow>
            signAuthEntries L R None signAuthEntry_arg address_arg authorizeEntry_arg this w =
            signAuthEntries L R (Some (sq + 100)) signAuthEntry_arg address_arg authorizeEntry_arg
              this w1"
    by (intro allI impI) (rule signAuthEntries_default_expiration)
  have 5: "\<forall>custom ledger.
            (\<forall>entry signer. \<exists>entry'.
               custom entry signer ledger (networkPassphrase (options this)) = Inr entry') \<longrightarrow>
            fst (signAuthEntries L R (Some ledger) signAuthEntry_arg address_arg (Some custom) this w)
              = Inr ()"
    by (intro allI impI) (rule signAuthEntries_custom[OF b needs_Inr_ops[OF b n]])
  from 1 2 3 4 5 show ?thesis by blast
qed


theorem signAuthEntries_checks_witness:
  "fst (signAuthEntries sample_lib (sample_rpc [] None) None None None None
          (sample_call [entry_source, entry_carol] None) world0)
     = Inl NoUnsignedNonInvokerAuthEntries
   \<and> fst (signAuthEntries sample_lib (sample_rpc [] None) None None None None
          (sample_call [entry_source, entry_bob] None) world0)
     = Inl NoSignatureNeeded
   \<and> fst (signAuthEntries sample_lib (sample_rpc [] None) None None (Some ''GBOB'') None
          (sample_call [entry_source, entry_bob] None) world0)
     = Inl NoSigner
   \<and> getLatestLedger (sample_rpc [] None) world0 = (Inr 1000, world0)
   \<and> signAuthEntries sample_lib (sample_rpc [] None) None (Some bob_signer) (Some ''GBOB'') None
          (sample_call [entry_source, entry_bob, entry_carol, entry_token] None) world0
     = (Inr (),
        (sample_call [entry_source, entry_bob, entry_carol, entry_token] None)
          \<lparr> built := Some ((sample_tx [entry_source, entry_bob, entry_carol, entry_token])
            \<lparr> operations := [InvokeHostFunction (hostFunctionTypeInvokeContract ''CSWAP'' ''swap'' [])
                 [entry_source, entry_bob_signed, entry_carol, entry_token]] \<rparr>) \<rparr>,
        world0)
   \<and> fst (signAuthEntries sample_lib (sample_rpc [] None) (Some 1100) None None (Some keep_entry)
          (sample_call [entry_source, entry_carol] None) world0)
     = Inr ()"
proof -
  let ?R = "sample_rpc [] None"
  let ?y = "sample_call [entry_source, entry_carol] None"
  let ?x = "sample_call [entry_source, entry_bob] None"
  let ?z = "sample_call [entry_source, entry_bob, entry_carol, entry_token] None"
  have by': "built ?y = Some (sample_tx [entry_source, entry_carol])"
    and bx: "built ?x = Some (sample_tx [entry_source, entry_bob])"
    and bz: "built ?z = Some (sample_tx [entry_source, entry_bob, entry_carol, entry_token])"
    by (simp_all add: sample_call_def)
  have nz: "needsNonInvokerSigningBy False ?z = Inr [''GBOB'', ''CTOKEN'']"
    by (simp add: needsNonInvokerSigningBy_def sample_call_def sample_tx_def op_auth_def
        isAddressCredentials_def entry_source_def entry_bob_def entry_carol_def entry_token_def
        Set_spread_def Address_toString_def)
  have ax: "signingAddress None ?x = Some ''GALICE''" "signingAddress (Some ''GBOB'') ?x = Some ''GBOB''"
    by (simp_all add: signingAddress_def sample_call_def sample_options_def)
  have sx: "entrySigner None ?x = None"
    by (simp add: entrySigner_def sample_call_def sample_options_def)
  have g: "getLatestLedger ?R world0 = (Inr 1000, world0)"
    by (simp add: sample_rpc_def)
  have k: "\<forall>entry signer. \<exists>entry'.
             keep_entry entry signer 1100 (networkPassphrase (options ?y)) = Inr entry'"
    by (simp add: keep_entry_def)
  have 1: "fst (signAuthEntries sample_lib ?R None None None None ?y world0)
             = Inl NoUnsignedNonInvokerAuthEntries"
    using signAuthEntries_checks[OF by' sample_needs2, of sample_lib ?R None None None world0]
    by simp
  have 2: "fst (signAuthEntries sample_lib ?R None None None None ?x world0) = Inl NoSignatureNeeded"
    using signAuthEntries_checks[OF bx sample_needs(2), of sample_lib ?R None None None world0] ax
    by simp
  have 3: "fst (signAuthEntries sample_lib ?R None None (Some ''GBOB'') None ?x world0) = Inl NoSigner"
    using signAuthEntries_checks[OF bx sample_needs(2), of sample_lib ?R None None "Some ''GBOB''" world0]
      ax sx
    by simp
  have 4: "signAuthEntries sample_lib ?R None (Some bob_signer) (Some ''GBOB'') None ?z world0 =
           signAuthEntries sample_lib ?R (Some 1100) (Some bob_signer) (Some ''GBOB'') None ?z world0"
    using signAuthEntries_checks[OF bz nz, of sample_lib ?R None "Some bob_signer"
        "Some ''GBOB''" world0 None] g
    by simp
  have 5: "fst (signAuthEntries sample_lib ?R (Some 1100) None None (Some keep_entry) ?y world0) = Inr ()"
    using signAuthEntries_checks[OF by' sample_needs2, of sample_lib ?R None None None world0] k
    by blast
  from 1 2 3 g 4 5 sample_sign_bob[of "[]" None] show ?thesis by simp
qed

section \<open>Simulation and restoration\<close>

text \<open>
  The equations of the three functions are unfolded by hand, one call at a time.
\<close>

declare simulate.simps [simp del] restoreFootprint.simps [simp del]
  buildFootprintRestoreTransaction.simps [simp del]

text \<open>One call of simulate that does not enter the restore branch.\<close>

lemma simulate_plain:
  assumes b: "built this = Some b"
    and s: "simulateTransaction R b w = (Inr sim, w1)"
    and nr: "(case restore_arg of None \<Rightarrow> restore (options this) | Some v \<Rightarrow> Some v) \<noteq> Some True
             \<or> (\<forall>s p. sim \<noteq> SimulateTransactionRestoreResponse s p)"
  shows "simulate L R (Suc n) restore_arg this w =
     (if isSimulationSuccess sim
      then (case assembleTransaction L b sim of
              Inl e \<Rightarrow> Some (Inl e, simulated_with this sim, w1)
            | Inr tb \<Rightarrow>
                Some (Inr (), (simulated_with this sim)\<lparr> built := Some (TransactionBuilder_build L tb) \<rparr>, w1))
      else Some (Inr (), simulated_with this sim, w1))"
proof (cases "(case restore_arg of None \<Rightarrow> restore (options this) | Some v \<Rightarrow> Some v)")
  case None
  then show ?thesis using b s unfolding simulated_with_def
    by (subst simulate.simps)
       (simp add: Let_def split: SimulateTransactionResponse.splits)
next
  case (Some v)
  show ?thesis
  proof (cases v)
    case False
    with Some show ?thesis using b s unfolding simulated_with_def
      by (subst simulate.simps)
         (simp add: Let_def split: SimulateTransactionResponse.splits)
  next
    case True
    with Some nr have "\<forall>s p. sim \<noteq> SimulateTransactionRestoreResponse s p" by simp
    with Some True show ?thesis using b s unfolding simulated_with_def
      by (subst simulate.simps)
         (simp add: Let_def split: SimulateTransactionResponse.splits)
  qed
qed

lemma simulate_rejected:
  assumes b: "built this = Some b"
    and s: "simulateTransaction R b w = (Inl e, w1)"
  shows "simulate L R (Suc n) restore_arg this w =
           Some (Inl e, this\<lparr> simulationResult := None, simulationTransactionData := None \<rparr>, w1)"
  using b s by (subst simulate.simps) (simp add: Let_def)

text \<open>The first call on a draft builds it.\<close>

lemma simulate_draft:
  assumes "built this = None" and "raw this = Some tb"
  shows "simulate L R (Suc n) restore_arg this w =
         simulate L R (Suc n) restore_arg
           (this\<lparr> built := Some (TransactionBuilder_build L tb),
                  raw := Some (tb\<lparr> tb_source := incrementSequenceNumber (tb_source tb) \<rparr>) \<rparr>) w"
  using assms
  by (simp add: simulate.simps(2)[of L R n restore_arg this w]
      simulate.simps(2)[of L R n restore_arg
         "this\<lparr> built := Some (TransactionBuilder_build L tb),
                  raw := Some (tb\<lparr> tb_source := incrementSequenceNumber (tb_source tb) \<rparr>) \<rparr>" w]
      build_raw_def Let_def)

text \<open>The restore branch.\<close>

lemma simulate_restore:
  assumes b: "built this = Some b"
    and s: "simulateTransaction R b w = (Inr (SimulateTransactionRestoreResponse sf p), w1)"
    and r: "(case restore_arg of None \<Rightarrow> restore (options this) | Some v \<Rightarrow> Some v) = Some True"
    and ga: "getAccount R (options this) w1 = (Inr account, w2)"
  shows "simulate L R (Suc n) restore_arg this w =
     (case restoreFootprint L R n (simulated_with this (SimulateTransactionRestoreResponse sf p)) p
             (Some account) w2 of
        None \<Rightarrow> None
      | Some (Inl e, w3) \<Rightarrow>
          Some (Inl e, simulated_with this (SimulateTransactionRestoreResponse sf p), w3)
      | Some (Inr (result, account'), w3) \<Rightarrow>
          if status result = SUCCESS
          then simulate L R n None
                 ((simulated_with this (SimulateTransactionRestoreResponse sf p))
                    \<lparr> raw := Some (invokeBuilder L (options this) account') \<rparr>) w3
          else Some (Inl (RestorationFailure (Some result)),
                     simulated_with this (SimulateTransactionRestoreResponse sf p), w3))"
  using b s r ga unfolding simulated_with_def
  by (subst simulate.simps) (simp add: Let_def split: option.split sum.split prod.split)


lemma build_restore:
  assumes pk: "\<not> falsy (publicKey opts)"
  shows "buildFootprintRestoreTransaction L R (Suc n) opts d account fee_arg w =
     (case simulateTransaction R
             (TransactionBuilder_build L (restoreBuilder L opts d account fee_arg)) w of
        (Inl e, w1) \<Rightarrow> Some (Inl e, w1)
      | (Inr sim, w1) \<Rightarrow>
          if isSimulationSuccess sim
          then (case assembleTransaction L
                       (TransactionBuilder_build L (restoreBuilder L opts d account fee_arg)) sim of
                  Inl e \<Rightarrow> Some (Inl e, w1)
                | Inr tb \<Rightarrow>
                    Some (Inr ((simulated_with (restoreCall L opts d account fee_arg) sim)
                                 \<lparr> built := Some (TransactionBuilder_build L tb) \<rparr>), w1))
          else Some (Inr (simulated_with (restoreCall L opts d account fee_arg) sim), w1))"
proof -
  let ?rb = "restoreBuilder L opts d account fee_arg"
  let ?tx1 = "\<lparr> options = opts\<lparr> opt_simulate :=
                      Some (case opt_simulate opts of None \<Rightarrow> True | Some v \<Rightarrow> v) \<rparr>,
       raw = Some ?rb, built = None,
       simulation = None, simulationResult = None, simulationTransactionData = None,
       signed = None \<rparr>"
  have d: "simulate L R (Suc n) (Some False) ?tx1 w =
           simulate L R (Suc n) (Some False) (restoreCall L opts d account fee_arg) w"
    using simulate_draft[of ?tx1 ?rb L R n "Some False" w]
    by (simp add: restoreCall_def restoreBuilder_def)
  have b: "built (restoreCall L opts d account fee_arg) = Some (TransactionBuilder_build L ?rb)"
    by (simp add: restoreCall_def)
  obtain res w1 where s: "simulateTransaction R (TransactionBuilder_build L ?rb) w = (res, w1)"
    by (cases "simulateTransaction R (TransactionBuilder_build L ?rb) w")
  have u: "buildFootprintRestoreTransaction L R (Suc n) opts d account fee_arg w =
           (case simulate L R (Suc n) (Some False) ?tx1 w of
              None \<Rightarrow> None
            | Some (Inl e, tx2, w1) \<Rightarrow> Some (Inl e, w1)
            | Some (Inr u, tx2, w1) \<Rightarrow> Some (Inr tx2, w1))"
    using pk
    by (subst buildFootprintRestoreTransaction.simps)
       (simp add: new_AssembledTransaction_def restoreBuilder_def Let_def)
  show ?thesis
  proof (cases res)
    case (Inl e)
    with s simulate_rejected[OF b, of R w e w1 L n "Some False"] show ?thesis
      unfolding u d by simp
  next
    case (Inr sim)
    with s simulate_plain[OF b, of R w sim w1 "Some False" L n] show ?thesis
      unfolding u d by (simp split: sum.splits)
  qed
qed




lemma restoreFootprint_sent:
  assumes st: "signTransaction (options this) = Some f"
    and bb: "buildFootprintRestoreTransaction L R n (options this) (transactionData p)
               account (minResourceFee p) w = Some (Inr restoreTx, w2)"
    and ss: "signAndSend L R False None restoreTx w2 = (Inr sent, restoreTx', w3)"
  shows "restoreFootprint L R n this p (Some account) w =
     Some (case getTransactionResponse sent of
             None \<Rightarrow> Inl (RestorationFailure None)
           | Some response \<Rightarrow>
               Inr (response, case raw restoreTx' of None \<Rightarrow> account | Some tb \<Rightarrow> tb_source tb),
           w3)"
  using st bb ss
  by (subst restoreFootprint.simps) (simp split: option.splits)

lemma simulationData_expired:
  "simulationResult this = None \<Longrightarrow>
   simulation this = Some (SimulateTransactionRestoreResponse sf p) \<Longrightarrow>
   simulationData this = (Inl ExpiredState, this)"
  by (simp add: simulationData_def)

text \<open>The restore call from its simulation to its submission.\<close>

lemma refinalized_timeout:
  "timeoutInSeconds o1 = timeoutInSeconds o2 \<Longrightarrow> refinalized L o1 b d = refinalized L o2 b d"
  by (simp add: refinalized_def)

lemma restoreSimulated_fields:
  "built (restoreSimulated L opts d account fee_arg sim tb) = Some (TransactionBuilder_build L tb)"
  "signed (restoreSimulated L opts d account fee_arg sim tb) = None"
  "simulation (restoreSimulated L opts d account fee_arg sim tb) = Some sim"
  "simulationResult (restoreSimulated L opts d account fee_arg sim tb) = None"
  "simulationTransactionData (restoreSimulated L opts d account fee_arg sim tb) = None"
  "signTransaction (options (restoreSimulated L opts d account fee_arg sim tb)) = signTransaction opts"
  "networkPassphrase (options (restoreSimulated L opts d account fee_arg sim tb)) = networkPassphrase opts"
  "timeoutInSeconds (options (restoreSimulated L opts d account fee_arg sim tb)) = timeoutInSeconds opts"
  "raw (restoreSimulated L opts d account fee_arg sim tb) =
     Some ((restoreBuilder L opts d account fee_arg)\<lparr> tb_source := incrementSequenceNumber account \<rparr>)"
  by (simp_all add: restoreSimulated_def simulated_with_def restoreCall_def)

lemma restore_needs:
  assumes "operations (TransactionBuilder_build L tb) = [RestoreFootprint]"
  shows "needsNonInvokerSigningBy False (restoreSimulated L opts d account fee_arg sim tb) = Inr []"
  using assms
  by (simp add: needsNonInvokerSigningBy_def restoreSimulated_fields op_auth_def Set_spread_def)

lemma restore_sign:
  assumes st: "signTransaction opts = Some f"
    and ops: "operations (TransactionBuilder_build L tb) = [RestoreFootprint]"
    and nrc: "auth (resultOrDefault s) \<noteq> [] \<or>
              readWrite (footprint (resources (sim_transactionData s))) \<noteq> []"
  shows "sign L False None
           (restoreSimulated L opts d account fee_arg (SimulateTransactionSuccessResponse s) tb) =
     (case f (Tx_toXDR L (refinalized L opts (TransactionBuilder_build L tb) (sim_transactionData s)))
             (networkPassphrase opts) of
        Inl e \<Rightarrow>
          (Inl e,
           (restoreSimulated L opts d account fee_arg (SimulateTransactionSuccessResponse s) tb)
             \<lparr> simulationResult := Some (resultOrDefault s),
               simulationTransactionData := Some (sim_transactionData s),
               built := Some (refinalized L opts (TransactionBuilder_build L tb)
                                (sim_transactionData s)) \<rparr>)
      | Inr sg \<Rightarrow>
          (case TransactionBuilder_fromXDR L sg (networkPassphrase opts) of
             Inl e \<Rightarrow>
               (Inl e,
                (restoreSimulated L opts d account fee_arg (SimulateTransactionSuccessResponse s) tb)
                  \<lparr> simulationResult := Some (resultOrDefault s),
                    simulationTransactionData := Some (sim_transactionData s),
                    built := Some (refinalized L opts (TransactionBuilder_build L tb)
                                     (sim_transactionData s)) \<rparr>)
           | Inr signedTx \<Rightarrow> (Inr (), restoreSigned L opts d account fee_arg s tb signedTx)))"
proof -
  let ?T = "restoreSimulated L opts d account fee_arg (SimulateTransactionSuccessResponse s) tb"
  let ?T1 = "?T\<lparr> simulationResult := Some (resultOrDefault s),
                  simulationTransactionData := Some (sim_transactionData s) \<rparr>"
  have b: "built ?T = Some (TransactionBuilder_build L tb)" by (rule restoreSimulated_fields)
  have sd: "simulationData ?T = (Inr (resultOrDefault s, sim_transactionData s), ?T1)"
    by (simp add: simulationData_def restoreSimulated_fields resultOrDefault_def Let_def)
  have chk: "(if False then (Inr False, ?T) else isReadCall ?T) = (Inr False, ?T1)"
    using isReadCall_eq[OF sd] nrc by auto
  have es: "envelopeSigner None ?T = Some f"
    by (simp add: envelopeSigner_def restoreSimulated_fields st)
  have rt: "refinalized L (options ?T) (TransactionBuilder_build L tb) (sim_transactionData s)
            = refinalized L opts (TransactionBuilder_build L tb) (sim_transactionData s)"
    by (rule refinalized_timeout) (rule restoreSimulated_fields)
  show ?thesis
    unfolding sign_after_check[OF b chk simulationData_idem[OF sd] restore_needs[OF ops], of L None]
    by (simp add: es nonContract_def rt restoreSimulated_fields restoreSigned_def
        split: sum.splits)
qed

lemma restore_signAndSend:
  assumes st: "signTransaction opts = Some f"
    and ops: "operations (TransactionBuilder_build L tb) = [RestoreFootprint]"
    and nrc: "auth (resultOrDefault s) \<noteq> [] \<or>
              readWrite (footprint (resources (sim_transactionData s))) \<noteq> []"
    and wl: "f (Tx_toXDR L (refinalized L opts (TransactionBuilder_build L tb) (sim_transactionData s)))
               (networkPassphrase opts) = Inr sg"
    and dc: "TransactionBuilder_fromXDR L sg (networkPassphrase opts) = Inr signedTx"
    and sn: "SentTransaction_init R (restoreSigned L opts d account fee_arg s tb signedTx) w1
               = (res, w2)"
  shows "signAndSend L R False None
           (restoreSimulated L opts d account fee_arg (SimulateTransactionSuccessResponse s) tb) w1
         = (res, restoreSigned L opts d account fee_arg s tb signedTx, w2)"
  using sn
  by (simp add: signAndSend_def restoreSimulated_fields restore_sign[OF st ops nrc] wl dc
      send_def restoreSigned_def)


lemma build_restore_ok:
  assumes pk: "\<not> falsy (publicKey opts)"
    and sm: "simulateTransaction R (TransactionBuilder_build L (restoreBuilder L opts d account fee_arg)) w
             = (Inr sim, w1)"
    and ok: "isSimulationSuccess sim"
    and asm: "assembleTransaction L (TransactionBuilder_build L (restoreBuilder L opts d account fee_arg))
               sim = Inr tb"
  shows "buildFootprintRestoreTransaction L R (Suc n) opts d account fee_arg w =
           Some (Inr (restoreSimulated L opts d account fee_arg sim tb), w1)"
  unfolding build_restore[OF pk] using sm ok asm by (simp add: restoreSimulated_def)

lemma restoreFootprint_run:
  assumes pk: "\<not> falsy (publicKey (options this))"
    and st: "signTransaction (options this) = Some f"
    and sm: "simulateTransaction R
               (TransactionBuilder_build L
                  (restoreBuilder L (options this) (transactionData p) account (minResourceFee p))) w
             = (Inr (SimulateTransactionSuccessResponse s), w1)"
    and asm: "assembleTransaction L
               (TransactionBuilder_build L
                  (restoreBuilder L (options this) (transactionData p) account (minResourceFee p)))
               (SimulateTransactionSuccessResponse s) = Inr tb"
    and ops: "operations (TransactionBuilder_build L tb) = [RestoreFootprint]"
    and nrc: "auth (resultOrDefault s) \<noteq> [] \<or>
              readWrite (footprint (resources (sim_transactionData s))) \<noteq> []"
    and wl: "f (Tx_toXDR L (refinalized L (options this) (TransactionBuilder_build L tb)
                              (sim_transactionData s)))
               (networkPassphrase (options this)) = Inr sg"
    and dc: "TransactionBuilder_fromXDR L sg (networkPassphrase (options this)) = Inr signedTx"
    and sn: "SentTransaction_init R
               (restoreSigned L (options this) (transactionData p) account (minResourceFee p)
                  s tb signedTx) w1 = (Inr sent, w2)"
  shows "restoreFootprint L R (Suc n) this p (Some account) w =
           Some (case getTransactionResponse sent of
                   None \<Rightarrow> Inl (RestorationFailure None)
                 | Some response \<Rightarrow> Inr (response, incrementSequenceNumber account),
                 w2)"
proof -
  have ok: "isSimulationSuccess (SimulateTransactionSuccessResponse s)"
    by (simp add: isSimulationSuccess_def)
  note bb = build_restore_ok[OF pk sm ok asm, of n]
  note ss = restore_signAndSend[OF st ops nrc wl dc sn]
  show ?thesis
    unfolding restoreFootprint_sent[OF st bb ss]
    by (simp add: restoreSigned_def restoreSimulated_fields split: option.splits)
qed




lemma sample_call_options:
  "options (sample_call es sim) = sample_options\<lparr> restore := None \<rparr>"
  "options (with_restore r (sample_call es sim)) = sample_options\<lparr> restore := r \<rparr>"
  "options (simulated_with this sim') = options this"
  "built (simulated_with this sim') = built this"
  "built (with_restore r this) = built this"
  "built (sample_call es sim) = Some (sample_tx es)"
  by (simp_all add: sample_call_def sample_options_def with_restore_def simulated_with_def)

lemma sample_simulateTransaction:
  "simulated w < length script \<Longrightarrow>
   simulateTransaction (sample_rpc script outcome) t w =
     (Inr (script ! simulated w), w\<lparr> simulated := Suc (simulated w) \<rparr>)"
  by (simp add: sample_rpc_def)

lemma sample_getAccount:
  "publicKey opts = Some ''GALICE'' \<Longrightarrow>
   getAccount (sample_rpc script outcome) opts w = (Inr (alice (7 + submitted w)), w)"
  by (simp add: sample_rpc_def alice_def)


lemma sample_restore_sim_unfold:
  "sample_restore_sim = SimulateTransactionSuccessResponse sample_restore_s"
  by (simp add: sample_restore_sim_def sample_restore_s_def)

text \<open>What the sample library and the sample server do with the restore transaction.\<close>

lemma sample_restore_steps:
  assumes o: "opts = sample_options\<lparr> restore := r \<rparr>"
  shows "\<not> falsy (publicKey opts)"
    and "signTransaction opts = Some sample_wallet"
    and "assembleTransaction (signing_lib sample_signed)
           (TransactionBuilder_build (signing_lib sample_signed)
              (restoreBuilder (signing_lib sample_signed) opts sample_data (alice k) ''700''))
           (SimulateTransactionSuccessResponse sample_restore_s) = Inr (sample_restore_tb opts k)"
    and "operations (TransactionBuilder_build (signing_lib sample_signed) (sample_restore_tb opts k))
           = [RestoreFootprint]"
    and "auth (resultOrDefault sample_restore_s) \<noteq> [] \<or>
         readWrite (footprint (resources (sim_transactionData sample_restore_s))) \<noteq> []"
    and "sample_wallet
           (Tx_toXDR (signing_lib sample_signed)
              (refinalized (signing_lib sample_signed) opts
                 (TransactionBuilder_build (signing_lib sample_signed) (sample_restore_tb opts k))
                 (sim_transactionData sample_restore_s)))
           (networkPassphrase opts) = Inr ''GALICE/600+alice''"
    and "TransactionBuilder_fromXDR (signing_lib sample_signed) ''GALICE/600+alice''
           (networkPassphrase opts) = Inr sample_signed"
  unfolding o
  by (simp_all add: falsy_def sample_options_def signing_lib_def sample_lib_def
      sample_assemble_def sample_assemble_success_def sample_build_def sample_cloneFrom_def
      restoreBuilder_def sample_restore_tb_def sample_restore_s_def sample_data_def
      resultOrDefault_def refinalized_def sample_wallet_def alice_def Let_def)

lemma sample_init:
  "signed this = Some t \<Longrightarrow>
   SentTransaction_init (sample_rpc script outcome) this w =
     (Inr \<lparr> getTransactionResponse =
              map_option (\<lambda>st. \<lparr> status = st, latestLedger = 1000 \<rparr>) outcome \<rparr>,
      w\<lparr> submitted := Suc (submitted w) \<rparr>)"
  by (simp add: sample_rpc_def)

lemma sample_restoreFootprint:
  assumes o: "options this = sample_options\<lparr> restore := r \<rparr>"
    and k: "simulated w < length script" and sc: "script ! simulated w = sample_restore_sim"
  shows "restoreFootprint (signing_lib sample_signed) (sample_rpc script outcome) (Suc n) this
           sample_preamble (Some (alice k)) w =
         Some (case outcome of
                 None \<Rightarrow> Inl (RestorationFailure None)
               | Some st \<Rightarrow> Inr (\<lparr> status = st, latestLedger = 1000 \<rparr>, alice (Suc k)),
               w\<lparr> simulated := Suc (simulated w), submitted := Suc (submitted w) \<rparr>)"
proof -
  let ?L = "signing_lib sample_signed"
  note h1 = sample_restore_steps(1)[OF o] and h2 = sample_restore_steps(2)[OF o]
    and h3 = sample_restore_steps(3)[OF o, of k] and h4 = sample_restore_steps(4)[OF o, of k]
    and h5 = sample_restore_steps(5)[OF o] and h6 = sample_restore_steps(6)[OF o, of k]
    and h7 = sample_restore_steps(7)[OF o]
  have p: "transactionData sample_preamble = sample_data" "minResourceFee sample_preamble = ''700''"
    by (simp_all add: sample_preamble_def)
  have sm: "simulateTransaction (sample_rpc script outcome)
               (TransactionBuilder_build ?L
                  (restoreBuilder ?L (options this) (transactionData sample_preamble) (alice k)
                     (minResourceFee sample_preamble))) w
             = (Inr (SimulateTransactionSuccessResponse sample_restore_s),
                w\<lparr> simulated := Suc (simulated w) \<rparr>)"
    using sample_simulateTransaction[OF k, of outcome] sc
    by (simp add: sample_restore_sim_unfold)
  have sn: "SentTransaction_init (sample_rpc script outcome)
               (restoreSigned ?L (options this) (transactionData sample_preamble) (alice k)
                  (minResourceFee sample_preamble) sample_restore_s
                  (sample_restore_tb (options this) k) sample_signed)
               (w\<lparr> simulated := Suc (simulated w) \<rparr>)
            = (Inr \<lparr> getTransactionResponse =
                      map_option (\<lambda>st. \<lparr> status = st, latestLedger = 1000 \<rparr>) outcome \<rparr>,
               w\<lparr> simulated := Suc (simulated w), submitted := Suc (submitted w) \<rparr>)"
    by (simp add: sample_init[of _ sample_signed] restoreSigned_def)
  show ?thesis
    unfolding restoreFootprint_run[where f = sample_wallet and s = sample_restore_s
        and tb = "sample_restore_tb (options this) k" and sg = "''GALICE/600+alice''"
        and signedTx = sample_signed, OF h1 h2 sm h3[unfolded p[symmetric]]
        h4 h5 h6 h7 sn]
    by (cases outcome) (simp_all add: incrementSequenceNumber_def alice_def)
qed






lemma sample_restore_unfold:
  "sample_restore =
     SimulateTransactionRestoreResponse
       \<lparr> sim_result = None, sim_transactionData = sample_data, sim_minResourceFee = ''500'' \<rparr>
       sample_preamble"
  by (simp add: sample_restore_def sample_preamble_def)

lemma sample_restore_again_unfold:
  "sample_restore_again =
     SimulateTransactionRestoreResponse
       \<lparr> sim_result = Some \<lparr> auth = [], retval = scvVoid \<rparr>,
         sim_transactionData = sample_data, sim_minResourceFee = ''500'' \<rparr>
       sample_preamble"
  by (simp add: sample_restore_again_def sample_preamble_def)

text \<open>
  Claim C1, as amended. Suppose a simulation asked to restore gets a restore response,
  the restore succeeds, and the simulation that follows gets a restore response again.
  That second simulation is an ordinary call of \<open>simulate\<close> without argument, on the
  object whose draft was rebuilt with the account that the restore returned, so its
  restore setting is the one of the options. When the options do not ask for restore,
  nothing more is attempted and the call ends in the network state that the second
  simulation left: it returns when the library assembles the built transaction with
  that response, and fails with the library's error otherwise; either way the restore
  response is stored and reading \<open>simulationData\<close> fails with \<open>ExpiredState\<close>. When
  the options ask for restore, the second response starts another restore; and so does
  every restore response that a call without argument receives, at any depth: that call
  is the outcome of the restore it starts, a successful restore being followed by one
  more call without argument on an object with the same options and the same built
  transaction, and an unsuccessful one by \<open>RestorationFailure\<close>.
\<close>

theorem simulate_restore_once:
  assumes b: "built this = Some b"
    and s1: "simulateTransaction R b w = (Inr (SimulateTransactionRestoreResponse sf p), w1)"
    and ga: "getAccount R (options this) w1 = (Inr account, w2)"
    and rf: "restoreFootprint L R (Suc n)
               (simulated_with this (SimulateTransactionRestoreResponse sf p)) p (Some account) w2
             = Some (Inr (response, account'), w3)"
    and ok: "status response = SUCCESS"
    and s2: "simulateTransaction R b w3 = (Inr (SimulateTransactionRestoreResponse sf2 p2), w4)"
  shows "simulate L R (Suc (Suc n)) (Some True) this w =
           simulate L R (Suc n) None
             ((simulated_with this (SimulateTransactionRestoreResponse sf p))
                \<lparr> raw := Some (invokeBuilder L (options this) account') \<rparr>) w3
       \<and> (restore (options this) \<noteq> Some True \<longrightarrow>
            (\<exists>this'. simulate L R (Suc (Suc n)) (Some True) this w =
                 Some (case assembleTransaction L b (SimulateTransactionRestoreResponse sf2 p2) of
                         Inl e \<Rightarrow> Inl e
                       | Inr tb \<Rightarrow> Inr (),
                       this', w4)
               \<and> simulation this' = Some (SimulateTransactionRestoreResponse sf2 p2)
               \<and> simulationData this' = (Inl ExpiredState, this')))
       \<and> (restore (options this) = Some True \<longrightarrow>
            (\<forall>account2 w5. getAccount R (options this) w4 = (Inr account2, w5) \<longrightarrow>
               simulate L R (Suc (Suc n)) (Some True) this w =
                 (case restoreFootprint L R n
                         (simulated_with
                            ((simulated_with this (SimulateTransactionRestoreResponse sf p))
                               \<lparr> raw := Some (invokeBuilder L (options this) account') \<rparr>)
                            (SimulateTransactionRestoreResponse sf2 p2))
                         p2 (Some account2) w5 of
                    None \<Rightarrow> None
                  | Some (Inl e, w6) \<Rightarrow>
                      Some (Inl e,
                            simulated_with
                              ((simulated_with this (SimulateTransactionRestoreResponse sf p))
                                 \<lparr> raw := Some (invokeBuilder L (options this) account') \<rparr>)
                              (SimulateTransactionRestoreResponse sf2 p2), w6)
                  | Some (Inr (result, account''), w6) \<Rightarrow>
                      if status result = SUCCESS
                      then simulate L R n None
                             ((simulated_with
                                 ((simulated_with this (SimulateTransactionRestoreResponse sf p))
                                    \<lparr> raw := Some (invokeBuilder L (options this) account') \<rparr>)
                                 (SimulateTransactionRestoreResponse sf2 p2))
                                \<lparr> raw := Some (invokeBuilder L (options this) account'') \<rparr>) w6
                      else Some (Inl (RestorationFailure (Some result)),
                                 simulated_with
                                   ((simulated_with this (SimulateTransactionRestoreResponse sf p))
                                      \<lparr> raw := Some (invokeBuilder L (options this) account') \<rparr>)
                                   (SimulateTransactionRestoreResponse sf2 p2), w6))))
       \<and> (\<forall>k that bt wa sf' p' wb account3 wc.
            built that = Some bt \<and> restore (options that) = Some True \<and>
            simulateTransaction R bt wa = (Inr (SimulateTransactionRestoreResponse sf' p'), wb) \<and>
            getAccount R (options that) wb = (Inr account3, wc) \<longrightarrow>
            simulate L R (Suc k) None that wa =
              (case restoreFootprint L R k
                      (simulated_with that (SimulateTransactionRestoreResponse sf' p')) p'
                      (Some account3) wc of
                 None \<Rightarrow> None
               | Some (Inl e, w6) \<Rightarrow>
                   Some (Inl e, simulated_with that (SimulateTransactionRestoreResponse sf' p'), w6)
               | Some (Inr (result, account''), w6) \<Rightarrow>
                   if status result = SUCCESS
                   then simulate L R k None
                          ((simulated_with that (SimulateTransactionRestoreResponse sf' p'))
                             \<lparr> raw := Some (invokeBuilder L (options that) account'') \<rparr>) w6
                   else Some (Inl (RestorationFailure (Some result)),
                              simulated_with that (SimulateTransactionRestoreResponse sf' p'), w6))
          \<and> (\<forall>account''.
                built ((simulated_with that (SimulateTransactionRestoreResponse sf' p'))
                         \<lparr> raw := Some (invokeBuilder L (options that) account'') \<rparr>) = Some bt
              \<and> options ((simulated_with that (SimulateTransactionRestoreResponse sf' p'))
                           \<lparr> raw := Some (invokeBuilder L (options that) account'') \<rparr>)
                  = options that))"
proof -
  let ?r1 = "SimulateTransactionRestoreResponse sf p"
  let ?r2 = "SimulateTransactionRestoreResponse sf2 p2"
  let ?t = "(simulated_with this ?r1)\<lparr> raw := Some (invokeBuilder L (options this) account') \<rparr>"
  have bt: "built ?t = Some b" and ot: "options ?t = options this"
    using b by (simp_all add: simulated_with_def)
  have 1: "simulate L R (Suc (Suc n)) (Some True) this w = simulate L R (Suc n) None ?t w3"
    using simulate_restore[OF b s1 _ ga, of "Some True" L "Suc n"] rf ok by simp
  have 2: "restore (options this) \<noteq> Some True \<longrightarrow>
            (\<exists>this'. simulate L R (Suc (Suc n)) (Some True) this w =
                 Some (case assembleTransaction L b ?r2 of Inl e \<Rightarrow> Inl e | Inr tb \<Rightarrow> Inr (),
                       this', w4)
               \<and> simulation this' = Some ?r2
               \<and> simulationData this' = (Inl ExpiredState, this'))"
  proof
    assume nr: "restore (options this) \<noteq> Some True"
    have p: "simulate L R (Suc n) None ?t w3 =
        (case assembleTransaction L b ?r2 of
              Inl e \<Rightarrow> Some (Inl e, simulated_with ?t ?r2, w4)
            | Inr tb \<Rightarrow>
                Some (Inr (), (simulated_with ?t ?r2)\<lparr> built := Some (TransactionBuilder_build L tb) \<rparr>, w4))"
      using simulate_plain[OF bt s2, of None L n] nr ot
      by (simp add: isSimulationSuccess_def)
    show "\<exists>this'. simulate L R (Suc (Suc n)) (Some True) this w =
                 Some (case assembleTransaction L b ?r2 of Inl e \<Rightarrow> Inl e | Inr tb \<Rightarrow> Inr (),
                       this', w4)
               \<and> simulation this' = Some ?r2
               \<and> simulationData this' = (Inl ExpiredState, this')"
    proof (cases "assembleTransaction L b ?r2")
      case (Inl e)
      with 1 p show ?thesis
        by (intro exI[of _ "simulated_with ?t ?r2"])
           (simp add: simulationData_expired simulated_with_def)
    next
      case (Inr tb)
      with 1 p show ?thesis
        by (intro exI[of _ "(simulated_with ?t ?r2)\<lparr> built := Some (TransactionBuilder_build L tb) \<rparr>"])
           (simp add: simulationData_expired simulated_with_def)
    qed
  qed
  have 3: "restore (options this) = Some True \<longrightarrow>
            (\<forall>account2 w5. getAccount R (options this) w4 = (Inr account2, w5) \<longrightarrow>
               simulate L R (Suc (Suc n)) (Some True) this w =
                 (case restoreFootprint L R n (simulated_with ?t ?r2) p2 (Some account2) w5 of
                    None \<Rightarrow> None
                  | Some (Inl e, w6) \<Rightarrow> Some (Inl e, simulated_with ?t ?r2, w6)
                  | Some (Inr (result, account''), w6) \<Rightarrow>
                      if status result = SUCCESS
                      then simulate L R n None
                             ((simulated_with ?t ?r2)
                                \<lparr> raw := Some (invokeBuilder L (options this) account'') \<rparr>) w6
                      else Some (Inl (RestorationFailure (Some result)),
                                 simulated_with ?t ?r2, w6)))"
  proof (intro impI allI)
    fix account2 w5
    assume r: "restore (options this) = Some True"
      and g2: "getAccount R (options this) w4 = (Inr account2, w5)"
    have g2': "getAccount R (options ?t) w4 = (Inr account2, w5)" using g2 ot by simp
    have r': "(case None of None \<Rightarrow> restore (options ?t) | Some v \<Rightarrow> Some v) = Some True"
      using r ot by simp
    show "simulate L R (Suc (Suc n)) (Some True) this w =
                 (case restoreFootprint L R n (simulated_with ?t ?r2) p2 (Some account2) w5 of
                    None \<Rightarrow> None
                  | Some (Inl e, w6) \<Rightarrow> Some (Inl e, simulated_with ?t ?r2, w6)
                  | Some (Inr (result, account''), w6) \<Rightarrow>
                      if status result = SUCCESS
                      then simulate L R n None
                             ((simulated_with ?t ?r2)
                                \<lparr> raw := Some (invokeBuilder L (options this) account'') \<rparr>) w6
                      else Some (Inl (RestorationFailure (Some result)),
                                 simulated_with ?t ?r2, w6))"
      unfolding 1 simulate_restore[OF bt s2 r' g2', of L n] ot ..
  qed
  have 4: "\<forall>k that bt wa sf' p' wb account3 wc.
            built that = Some bt \<and> restore (options that) = Some True \<and>
            simulateTransaction R bt wa = (Inr (SimulateTransactionRestoreResponse sf' p'), wb) \<and>
            getAccount R (options that) wb = (Inr account3, wc) \<longrightarrow>
            simulate L R (Suc k) None that wa =
              (case restoreFootprint L R k
                      (simulated_with that (SimulateTransactionRestoreResponse sf' p')) p'
                      (Some account3) wc of
                 None \<Rightarrow> None
               | Some (Inl e, w6) \<Rightarrow>
                   Some (Inl e, simulated_with that (SimulateTransactionRestoreResponse sf' p'), w6)
               | Some (Inr (result, account''), w6) \<Rightarrow>
                   if status result = SUCCESS
                   then simulate L R k None
                          ((simulated_with that (SimulateTransactionRestoreResponse sf' p'))
                             \<lparr> raw := Some (invokeBuilder L (options that) account'') \<rparr>) w6
                   else Some (Inl (RestorationFailure (Some result)),
                              simulated_with that (SimulateTransactionRestoreResponse sf' p'), w6))
          \<and> (\<forall>account''.
                built ((simulated_with that (SimulateTransactionRestoreResponse sf' p'))
                         \<lparr> raw := Some (invokeBuilder L (options that) account'') \<rparr>) = Some bt
              \<and> options ((simulated_with that (SimulateTransactionRestoreResponse sf' p'))
                           \<lparr> raw := Some (invokeBuilder L (options that) account'') \<rparr>)
                  = options that)"
  proof (intro allI impI, elim conjE, intro conjI allI)
    fix k :: nat and that :: AssembledTransaction and bt wa sf' p' wb account3 wc account''
    assume bt': "built that = Some bt" and rt: "restore (options that) = Some True"
      and st: "simulateTransaction R bt wa = (Inr (SimulateTransactionRestoreResponse sf' p'), wb)"
      and gt: "getAccount R (options that) wb = (Inr account3, wc)"
    have rt': "(case None of None \<Rightarrow> restore (options that) | Some v \<Rightarrow> Some v) = Some True"
      using rt by simp
    show "simulate L R (Suc k) None that wa =
              (case restoreFootprint L R k
                      (simulated_with that (SimulateTransactionRestoreResponse sf' p')) p'
                      (Some account3) wc of
                 None \<Rightarrow> None
               | Some (Inl e, w6) \<Rightarrow>
                   Some (Inl e, simulated_with that (SimulateTransactionRestoreResponse sf' p'), w6)
               | Some (Inr (result, account''), w6) \<Rightarrow>
                   if status result = SUCCESS
                   then simulate L R k None
                          ((simulated_with that (SimulateTransactionRestoreResponse sf' p'))
                             \<lparr> raw := Some (invokeBuilder L (options that) account'') \<rparr>) w6
                   else Some (Inl (RestorationFailure (Some result)),
                              simulated_with that (SimulateTransactionRestoreResponse sf' p'), w6))"
      by (rule simulate_restore[OF bt' st rt' gt])
    show "built ((simulated_with that (SimulateTransactionRestoreResponse sf' p'))
                   \<lparr> raw := Some (invokeBuilder L (options that) account'') \<rparr>) = Some bt"
      using bt' by (simp add: simulated_with_def)
    show "options ((simulated_with that (SimulateTransactionRestoreResponse sf' p'))
                     \<lparr> raw := Some (invokeBuilder L (options that) account'') \<rparr>) = options that"
      by (simp add: simulated_with_def)
  qed
  from 1 2 3 4 show ?thesis by blast
qed

theorem simulate_restore_once_witness:
  "restore (options (sample_call [] None)) \<noteq> Some True
   \<and> (\<exists>this'. simulate (signing_lib sample_signed)
                 (sample_rpc [sample_restore_again, sample_restore_sim, sample_restore_again,
                              sample_restore_sim, sample_success] (Some SUCCESS))
                 (Suc (Suc 0)) (Some True) (sample_call [] None) world0
               = Some (Inr (), this', \<lparr> simulated = 3, submitted = 1 \<rparr>)
          \<and> simulation this' = Some sample_restore_again
          \<and> simulationData this' = (Inl ExpiredState, this'))
   \<and> map_option (apsnd snd)
        (simulate (signing_lib sample_signed)
           (sample_rpc [sample_restore_again, sample_restore_sim, sample_restore_again,
                        sample_restore_sim, sample_success] (Some SUCCESS))
           (Suc (Suc 0)) None (with_restore (Some True) (sample_call [] None))
           \<lparr> simulated = 2, submitted = 1 \<rparr>)
      = Some (Inr (), \<lparr> simulated = 5, submitted = 2 \<rparr>)"
proof -
  let ?L = "signing_lib sample_signed"
  let ?script = "[sample_restore_again, sample_restore_sim, sample_restore_again,
                  sample_restore_sim, sample_success]"
  let ?R = "sample_rpc ?script (Some SUCCESS)"
  let ?x = "sample_call [] None"
  let ?y = "with_restore (Some True) (sample_call [] None)"
  let ?sf = "\<lparr> sim_result = Some \<lparr> auth = [], retval = scvVoid \<rparr>,
              sim_transactionData = sample_data, sim_minResourceFee = ''500'' \<rparr>"
  let ?rr = "SimulateTransactionRestoreResponse ?sf sample_preamble"
  let ?w1 = "\<lparr> simulated = 1, submitted = 0 \<rparr>"
  let ?w3 = "\<lparr> simulated = 2, submitted = 1 \<rparr>"
  let ?w4 = "\<lparr> simulated = 3, submitted = 1 \<rparr>"
  let ?w5 = "\<lparr> simulated = 4, submitted = 2 \<rparr>"
  let ?w6 = "\<lparr> simulated = 5, submitted = 2 \<rparr>"
  let ?t = "(simulated_with ?y ?rr)\<lparr> raw := Some (invokeBuilder ?L (options ?y) (alice 9)) \<rparr>"
  have b: "built ?x = Some (sample_tx [])" by (rule sample_call_options(6))
  have nr: "restore (options ?x) \<noteq> Some True"
    by (simp add: sample_call_def sample_options_def)
  have s1: "simulateTransaction ?R (sample_tx []) world0 = (Inr ?rr, ?w1)"
    using sample_simulateTransaction[of world0 ?script "Some SUCCESS" "sample_tx []"]
    by (simp add: world0_def sample_restore_again_unfold)
  have ga: "getAccount ?R (options ?x) ?w1 = (Inr (alice 7), ?w1)"
    using sample_getAccount[of "options ?x" ?script "Some SUCCESS" ?w1]
    by (simp add: sample_call_def sample_options_def)
  have o: "options (simulated_with ?x ?rr) = sample_options\<lparr> restore := None \<rparr>"
    by (simp add: sample_call_options)
  have rf: "restoreFootprint ?L ?R (Suc 0) (simulated_with ?x ?rr)
              sample_preamble (Some (alice 7)) ?w1
            = Some (Inr (\<lparr> status = SUCCESS, latestLedger = 1000 \<rparr>, alice 8), ?w3)"
    using sample_restoreFootprint[where n = 0 and k = 7 and outcome = "Some SUCCESS"
        and script = ?script and w = ?w1, OF o]
    by simp
  have ok: "status \<lparr> status = SUCCESS, latestLedger = 1000 \<rparr> = SUCCESS" by simp
  have s2: "simulateTransaction ?R (sample_tx []) ?w3 = (Inr ?rr, ?w4)"
    using sample_simulateTransaction[of ?w3 ?script "Some SUCCESS" "sample_tx []"]
    by (simp add: sample_restore_again_unfold)
  have as: "assembleTransaction ?L (sample_tx []) ?rr
            = Inr ((sample_cloneFrom (sample_tx []) ''500'' sample_data)
                     \<lparr> tb_timeout := Some 300,
                       tb_operations := [InvokeHostFunction
                          (hostFunctionTypeInvokeContract ''CSWAP'' ''swap'' []) []] \<rparr>)"
    by (simp add: signing_lib_def sample_lib_def sample_assemble_def
        sample_assemble_success_def sample_tx_def Let_def)
  note T = simulate_restore_once[OF b s1 ga rf ok s2]
  from T[THEN conjunct2, THEN conjunct1] nr
  obtain this' where
    1: "simulate ?L ?R (Suc (Suc 0)) (Some True) ?x world0 =
          Some (case assembleTransaction ?L (sample_tx []) ?rr of
                  Inl e \<Rightarrow> Inl e | Inr tb \<Rightarrow> Inr (), this', ?w4)"
    and 2: "simulation this' = Some ?rr"
    and 3: "simulationData this' = (Inl ExpiredState, this')"
    by blast
  from 1 have e1: "simulate ?L ?R (Suc (Suc 0)) (Some True) ?x world0 = Some (Inr (), this', ?w4)"
    unfolding as by simp
  \<comment> \<open>the general step, on a call whose options ask for restore\<close>
  have oy: "options ?y = sample_options\<lparr> restore := Some True \<rparr>"
    by (rule sample_call_options(2))
  have by': "built ?y = Some (sample_tx [])" by (simp add: sample_call_options)
  have ry: "restore (options ?y) = Some True" by (simp add: oy)
  have gy: "getAccount ?R (options ?y) ?w4 = (Inr (alice 8), ?w4)"
    using sample_getAccount[of "options ?y" ?script "Some SUCCESS" ?w4]
    by (simp add: oy sample_options_def)
  note step = T[THEN conjunct2, THEN conjunct2, THEN conjunct2, rule_format,
      OF conjI[OF by' conjI[OF ry conjI[OF s2 gy]]]]
  have oy': "options (simulated_with ?y ?rr) = sample_options\<lparr> restore := Some True \<rparr>"
    by (simp add: sample_call_options)
  have f2: "restoreFootprint ?L ?R (Suc 0) (simulated_with ?y ?rr) sample_preamble
              (Some (alice 8)) ?w4
            = Some (Inr (\<lparr> status = SUCCESS, latestLedger = 1000 \<rparr>, alice 9), ?w5)"
    using sample_restoreFootprint[where n = 0 and k = 8 and outcome = "Some SUCCESS"
        and script = ?script and w = ?w4, OF oy']
    by simp
  have e2: "simulate ?L ?R (Suc (Suc 0)) None ?y ?w3 = simulate ?L ?R (Suc 0) None ?t ?w5"
    unfolding step[THEN conjunct1, of "Suc 0"] f2 by simp
  have bt: "built ?t = Some (sample_tx [])"
    using step[THEN conjunct2, rule_format, THEN conjunct1, of "alice 9"] .
  have s3: "simulateTransaction ?R (sample_tx []) ?w5 = (Inr sample_success, ?w6)"
    using sample_simulateTransaction[of ?w5 ?script "Some SUCCESS" "sample_tx []"]
    by (simp add: numeral_eq_Suc)
  have n3: "(case None of None \<Rightarrow> restore (options ?t) | Some v \<Rightarrow> Some v) \<noteq> Some True
             \<or> (\<forall>s p. sample_success \<noteq> SimulateTransactionRestoreResponse s p)"
    by (simp add: sample_success_def)
  have e3: "map_option (apsnd snd) (simulate ?L ?R (Suc 0) None ?t ?w5) = Some (Inr (), ?w6)"
    unfolding simulate_plain[OF bt s3 n3, of ?L 0]
    by (simp add: isSimulationSuccess_def sample_success_def signing_lib_def sample_lib_def
        sample_assemble_def sample_assemble_success_def sample_tx_def Let_def)
  have e4: "map_option (apsnd snd) (simulate ?L ?R (Suc (Suc 0)) None ?y ?w3)
              = Some (Inr (), ?w6)"
    unfolding e2 by (rule e3)
  from nr e1 2 3 e4 show ?thesis
    unfolding sample_restore_again_unfold by blast
qed

text \<open>
  Claim C1 as it was stated fails when the options ask for restore: on a server that
  answers restore-required twice, one call of \<open>simulate\<close> submits two restore
  transactions before the third simulation succeeds.
\<close>

theorem simulate_restore_once_counterexample:
  "restore (options (with_restore (Some True) (sample_call [] None))) = Some True
   \<and> [sample_restore, sample_restore_sim, sample_restore, sample_restore_sim, sample_success] ! 2
       = sample_restore
   \<and> map_option (apsnd snd)
        (simulate (signing_lib sample_signed)
           (sample_rpc [sample_restore, sample_restore_sim, sample_restore, sample_restore_sim,
                        sample_success] (Some SUCCESS))
           (Suc (Suc (Suc 0))) None (with_restore (Some True) (sample_call [] None)) world0)
      = Some (Inr (), \<lparr> simulated = 5, submitted = 2 \<rparr>)"
proof -
  let ?L = "signing_lib sample_signed"
  let ?script = "[sample_restore, sample_restore_sim, sample_restore, sample_restore_sim,
                  sample_success]"
  let ?R = "sample_rpc ?script (Some SUCCESS)"
  let ?x = "with_restore (Some True) (sample_call [] None)"
  let ?sf = "\<lparr> sim_result = None, sim_transactionData = sample_data, sim_minResourceFee = ''500'' \<rparr>"
  let ?rr = "SimulateTransactionRestoreResponse ?sf sample_preamble"
  let ?w1 = "\<lparr> simulated = 1, submitted = 0 \<rparr>"
  let ?w2 = "\<lparr> simulated = 2, submitted = 1 \<rparr>"
  let ?w3 = "\<lparr> simulated = 3, submitted = 1 \<rparr>"
  let ?w4 = "\<lparr> simulated = 4, submitted = 2 \<rparr>"
  let ?w5 = "\<lparr> simulated = 5, submitted = 2 \<rparr>"
  let ?t1 = "(simulated_with ?x ?rr)\<lparr> raw := Some (invokeBuilder ?L (options ?x) (alice 8)) \<rparr>"
  let ?t2 = "(simulated_with ?t1 ?rr)\<lparr> raw := Some (invokeBuilder ?L (options ?t1) (alice 9)) \<rparr>"
  have ox: "options ?x = sample_options\<lparr> restore := Some True \<rparr>"
    by (rule sample_call_options(2))
  have pkx: "publicKey (options ?x) = Some ''GALICE''" by (simp add: ox sample_options_def)
  have rx: "restore (options ?x) = Some True" by (simp add: ox)
  have bx: "built ?x = Some (sample_tx [])" by (simp add: sample_call_options)
  have ot1: "options ?t1 = options ?x" and bt1: "built ?t1 = Some (sample_tx [])"
    by (simp_all add: sample_call_options)
  have ot2: "options ?t2 = options ?x" and bt2: "built ?t2 = Some (sample_tx [])"
    by (simp_all add: sample_call_options)
  \<comment> \<open>first simulation: restore required, restore submitted\<close>
  have s1: "simulateTransaction ?R (sample_tx []) world0 = (Inr ?rr, ?w1)"
    using sample_simulateTransaction[of world0 ?script "Some SUCCESS" "sample_tx []"]
    by (simp add: world0_def sample_restore_unfold)
  have g1: "getAccount ?R (options ?x) ?w1 = (Inr (alice 7), ?w1)"
    using sample_getAccount[OF pkx, of ?script "Some SUCCESS" ?w1] by simp
  have r1: "(case None of None \<Rightarrow> restore (options ?x) | Some v \<Rightarrow> Some v) = Some True"
    using rx by simp
  have o1: "options (simulated_with ?x ?rr) = sample_options\<lparr> restore := Some True \<rparr>"
    by (simp add: sample_call_options)
  have f1: "restoreFootprint ?L ?R (Suc (Suc 0)) (simulated_with ?x ?rr) sample_preamble
              (Some (alice 7)) ?w1
            = Some (Inr (\<lparr> status = SUCCESS, latestLedger = 1000 \<rparr>, alice 8), ?w2)"
    using sample_restoreFootprint[where n = "Suc 0" and k = 7 and outcome = "Some SUCCESS"
        and script = ?script and w = ?w1, OF o1]
    by simp
  have step1: "simulate ?L ?R (Suc (Suc (Suc 0))) None ?x world0
               = simulate ?L ?R (Suc (Suc 0)) None ?t1 ?w2"
    unfolding simulate_restore[OF bx s1 r1 g1, of ?L "Suc (Suc 0)"] f1 by simp
  \<comment> \<open>second simulation: restore required again, a second restore submitted\<close>
  have s2: "simulateTransaction ?R (sample_tx []) ?w2 = (Inr ?rr, ?w3)"
    using sample_simulateTransaction[of ?w2 ?script "Some SUCCESS" "sample_tx []"]
    by (simp add: sample_restore_unfold)
  have g2: "getAccount ?R (options ?t1) ?w3 = (Inr (alice 8), ?w3)"
    using sample_getAccount[of "options ?t1" ?script "Some SUCCESS" ?w3] pkx ot1 by simp
  have r2: "(case None of None \<Rightarrow> restore (options ?t1) | Some v \<Rightarrow> Some v) = Some True"
    using rx ot1 by simp
  have o2: "options (simulated_with ?t1 ?rr) = sample_options\<lparr> restore := Some True \<rparr>"
    by (simp add: sample_call_options)
  have f2: "restoreFootprint ?L ?R (Suc 0) (simulated_with ?t1 ?rr) sample_preamble
              (Some (alice 8)) ?w3
            = Some (Inr (\<lparr> status = SUCCESS, latestLedger = 1000 \<rparr>, alice 9), ?w4)"
    using sample_restoreFootprint[where n = 0 and k = 8 and outcome = "Some SUCCESS"
        and script = ?script and w = ?w3, OF o2]
    by simp
  have step2: "simulate ?L ?R (Suc (Suc 0)) None ?t1 ?w2 = simulate ?L ?R (Suc 0) None ?t2 ?w4"
    unfolding simulate_restore[OF bt1 s2 r2 g2, of ?L "Suc 0"] f2 by simp
  \<comment> \<open>third simulation: success\<close>
  have s3: "simulateTransaction ?R (sample_tx []) ?w4 = (Inr sample_success, ?w5)"
    using sample_simulateTransaction[of ?w4 ?script "Some SUCCESS" "sample_tx []"]
    by simp
  have n3: "(case None of None \<Rightarrow> restore (options ?t2) | Some v \<Rightarrow> Some v) \<noteq> Some True
             \<or> (\<forall>s p. sample_success \<noteq> SimulateTransactionRestoreResponse s p)"
    by (simp add: sample_success_def)
  have step3: "map_option (apsnd snd) (simulate ?L ?R (Suc 0) None ?t2 ?w4) = Some (Inr (), ?w5)"
    unfolding simulate_plain[OF bt2 s3 n3, of ?L 0]
    by (simp add: isSimulationSuccess_def sample_success_def signing_lib_def sample_lib_def
        sample_assemble_def sample_assemble_success_def sample_tx_def Let_def)
  have i2: "?script ! 2 = sample_restore" by (simp add: numeral_2_eq_2)
  from rx i2 step3 show ?thesis unfolding step1 step2 by simp
qed

end
